theory Spec2Isabelle
  imports Complex_Main "HOL-Library.Word"
begin

section \<open>JavaScript numbers\<close>

text \<open>
  The engine computes with JavaScript numbers.  A number is modelled as a finite real, one
  of the two infinities, or NaN.  The special values follow IEEE 754, and the two zeros
  are one value that divides like \<open>+0\<close>.  The value \<open>undefined\<close>, where the source
  reads it as a number, is NaN.  The result of an arithmetic operation on finite numbers
  is the exact real, without rounding and overflow, except where the rounding is written
  out with \<open>to_double\<close> and \<open>to_float32\<close> (section Rounding): in the loops of
  \<open>step\<close> that add gravity to the forces and that update the velocities and the
  position of a body (the leap frog step).
\<close>

datatype jsnum = Fin real | PInf | NInf | NaN

fun is_neg :: "jsnum \<Rightarrow> bool" where
  "is_neg (Fin a) = (a < 0)"
| "is_neg PInf = False"
| "is_neg NInf = True"
| "is_neg NaN = False"

definition signed_inf :: "bool \<Rightarrow> jsnum" where
  "signed_inf neg = (if neg then NInf else PInf)"

instantiation jsnum :: "{uminus, plus, minus, times, inverse, ord}"
begin

fun uminus_jsnum :: "jsnum \<Rightarrow> jsnum" where
  "uminus_jsnum (Fin a) = Fin (- a)"
| "uminus_jsnum PInf = NInf"
| "uminus_jsnum NInf = PInf"
| "uminus_jsnum NaN = NaN"

fun plus_jsnum :: "jsnum \<Rightarrow> jsnum \<Rightarrow> jsnum" where
  "plus_jsnum (Fin a) (Fin b) = Fin (a + b)"
| "plus_jsnum NaN b = NaN"
| "plus_jsnum a NaN = NaN"
| "plus_jsnum PInf NInf = NaN"
| "plus_jsnum NInf PInf = NaN"
| "plus_jsnum PInf b = PInf"
| "plus_jsnum a PInf = PInf"
| "plus_jsnum NInf b = NInf"
| "plus_jsnum a NInf = NInf"

definition minus_jsnum :: "jsnum \<Rightarrow> jsnum \<Rightarrow> jsnum" where
  "minus_jsnum a b = a + (- b)"

fun times_jsnum :: "jsnum \<Rightarrow> jsnum \<Rightarrow> jsnum" where
  "times_jsnum (Fin a) (Fin b) = Fin (a * b)"
| "times_jsnum NaN b = NaN"
| "times_jsnum a NaN = NaN"
| "times_jsnum a b =
     (if a = Fin 0 \<or> b = Fin 0 then NaN else signed_inf (is_neg a \<noteq> is_neg b))"

fun divide_jsnum :: "jsnum \<Rightarrow> jsnum \<Rightarrow> jsnum" where
  "divide_jsnum (Fin a) (Fin b) =
     (if b = 0 then (if a = 0 then NaN else signed_inf (a < 0)) else Fin (a / b))"
| "divide_jsnum NaN b = NaN"
| "divide_jsnum a NaN = NaN"
| "divide_jsnum (Fin a) b = Fin 0"
| "divide_jsnum a (Fin b) = signed_inf (is_neg a \<noteq> (b < 0))"
| "divide_jsnum a b = NaN"

definition inverse_jsnum :: "jsnum \<Rightarrow> jsnum" where
  "inverse_jsnum a = divide (Fin 1) a"

fun less_jsnum :: "jsnum \<Rightarrow> jsnum \<Rightarrow> bool" where
  "less_jsnum (Fin a) (Fin b) = (a < b)"
| "less_jsnum NaN b = False"
| "less_jsnum a NaN = False"
| "less_jsnum a NInf = False"
| "less_jsnum PInf b = False"
| "less_jsnum a b = True"

fun less_eq_jsnum :: "jsnum \<Rightarrow> jsnum \<Rightarrow> bool" where
  "less_eq_jsnum (Fin a) (Fin b) = (a \<le> b)"
| "less_eq_jsnum NaN b = False"
| "less_eq_jsnum a NaN = False"
| "less_eq_jsnum NInf b = True"
| "less_eq_jsnum a PInf = True"
| "less_eq_jsnum a b = False"

instance ..

end

text \<open>\<open>isNaN\<close>, \<open>Math.abs\<close> and \<open>Math.sqrt\<close>.\<close>

definition isNaN :: "jsnum \<Rightarrow> bool" where
  "isNaN a = (a = NaN)"

fun js_abs :: "jsnum \<Rightarrow> jsnum" where
  "js_abs (Fin a) = Fin \<bar>a\<bar>"
| "js_abs PInf = PInf"
| "js_abs NInf = PInf"
| "js_abs NaN = NaN"

fun js_sqrt :: "jsnum \<Rightarrow> jsnum" where
  "js_sqrt (Fin a) = (if a < 0 then NaN else Fin (sqrt a))"
| "js_sqrt PInf = PInf"
| "js_sqrt NInf = NaN"
| "js_sqrt NaN = NaN"

text \<open>
  Reading a typed array outside its bounds gives \<open>undefined\<close>, which is NaN in every
  arithmetic use; writing outside its bounds is ignored.  \<open>xs[i := v]\<close> already
  ignores an index beyond the end.
\<close>

definition rd :: "jsnum list \<Rightarrow> nat \<Rightarrow> jsnum" where
  "rd xs i = (if i < length xs then xs ! i else NaN)"

text \<open>An element of an Int16Array: \<open>None\<close> is the \<open>undefined\<close> of a read outside the
  bounds.\<close>

definition rdi :: "int list \<Rightarrow> nat \<Rightarrow> int option" where
  "rdi xs i = (if i < length xs then Some (xs ! i) else None)"


section \<open>Rounding\<close>

text \<open>
  An arithmetic operation of the language rounds its exact result to the nearest double,
  and a store into a Float32Array rounds the double to the nearest 32-bit float.  A tie
  goes to the neighbour with the even significand, and a result beyond the largest finite
  number of the format becomes an infinity.

  \<open>binary_round p emin emax\<close> rounds a real to the binary format with \<open>p\<close> bits of
  significand and the exponents \<open>emin\<close> to \<open>emax\<close>.  The exponent of the number is the
  floor of its logarithm, or \<open>emin\<close> if that is larger (the subnormal numbers); the unit in
  the last place is \<open>2 ^ (e - p + 1)\<close>; the result is the nearest multiple of that unit.
\<close>

definition pow2 :: "int \<Rightarrow> real" where
  "pow2 k = (if 0 \<le> k then 2 ^ nat k else 1 / 2 ^ nat (- k))"

definition round_even :: "real \<Rightarrow> int" where
  "round_even q =
     (let f = \<lfloor>q\<rfloor>; d = q - of_int f
      in if d < 1/2 then f else if 1/2 < d then f + 1 else if even f then f else f + 1)"

definition binary_round :: "nat \<Rightarrow> int \<Rightarrow> int \<Rightarrow> real \<Rightarrow> jsnum" where
  "binary_round p emin emax r =
     (if r = 0 then Fin 0
      else
        (let e = max \<lfloor>log 2 \<bar>r\<bar>\<rfloor> emin;
             ulp = pow2 (e - int p + 1);
             v = of_int (round_even (r / ulp)) * ulp
         in if pow2 (emax + 1) \<le> \<bar>v\<bar> then signed_inf (r < 0) else Fin v))"

fun to_binary :: "nat \<Rightarrow> int \<Rightarrow> int \<Rightarrow> jsnum \<Rightarrow> jsnum" where
  "to_binary p emin emax (Fin r) = binary_round p emin emax r"
| "to_binary p emin emax a = a"

text \<open>The rounding of the result of an arithmetic operation, and of a store into a
  Float32Array.\<close>

definition to_double :: "jsnum \<Rightarrow> jsnum" where
  "to_double = to_binary 53 (- 1022) 1023"

definition to_float32 :: "jsnum \<Rightarrow> jsnum" where
  "to_float32 = to_binary 24 (- 126) 127"

text \<open>A number that an element of a Float32Array can hold: the rounding of the store
  leaves it as it is.\<close>

definition float32_value :: "jsnum \<Rightarrow> bool" where
  "float32_value a = (to_float32 a = a)"


section \<open>Vec3 and Quaternion\<close>

datatype vec3 = V3 (vec_x: jsnum) (vec_y: jsnum) (vec_z: jsnum)

text \<open>\<open>x||0.0\<close> in the constructor of Vec3: a falsy argument (0 or NaN) becomes 0.\<close>

definition or0 :: "jsnum \<Rightarrow> jsnum" where
  "or0 a = (if a = NaN \<or> a = Fin 0 then Fin 0 else a)"

definition Vec3 :: "jsnum \<Rightarrow> jsnum \<Rightarrow> jsnum \<Rightarrow> vec3" where
  "Vec3 a b c = V3 (or0 a) (or0 b) (or0 c)"

definition cross :: "vec3 \<Rightarrow> vec3 \<Rightarrow> vec3" where
  "cross u v = V3 (vec_y u * vec_z v - vec_z u * vec_y v)
                  (vec_z u * vec_x v - vec_x u * vec_z v)
                  (vec_x u * vec_y v - vec_y u * vec_x v)"

text \<open>\<open>vadd\<close> and \<open>vsub\<close> without a target build their result with the constructor.\<close>

definition vadd :: "vec3 \<Rightarrow> vec3 \<Rightarrow> vec3" where
  "vadd u v = Vec3 (vec_x u + vec_x v) (vec_y u + vec_y v) (vec_z u + vec_z v)"

definition vsub :: "vec3 \<Rightarrow> vec3 \<Rightarrow> vec3" where
  "vsub u v = Vec3 (vec_x u - vec_x v) (vec_y u - vec_y v) (vec_z u - vec_z v)"

definition norm3 :: "vec3 \<Rightarrow> jsnum" where
  "norm3 u = js_sqrt (vec_x u * vec_x u + vec_y u * vec_y u + vec_z u * vec_z u)"

text \<open>\<open>normalize\<close> changes the vector in place; the model returns the new vector.\<close>

definition normalize3 :: "vec3 \<Rightarrow> vec3" where
  "normalize3 u =
     (let n = norm3 u
      in if Fin 0 < n then V3 (vec_x u / n) (vec_y u / n) (vec_z u / n)
         else V3 (Fin 0) (Fin 0) (Fin 0))"

definition mult3 :: "vec3 \<Rightarrow> jsnum \<Rightarrow> vec3" where
  "mult3 u s = V3 (s * vec_x u) (s * vec_y u) (s * vec_z u)"

definition dot :: "vec3 \<Rightarrow> vec3 \<Rightarrow> jsnum" where
  "dot u v = vec_x u * vec_x v + vec_y u * vec_y v + vec_z u * vec_z v"

definition negate :: "vec3 \<Rightarrow> vec3" where
  "negate u = V3 (- vec_x u) (- vec_y u) (- vec_z u)"

datatype quaternion = Quaternion (quat_x: jsnum) (quat_y: jsnum) (quat_z: jsnum) (quat_w: jsnum)

definition quat_mult :: "quaternion \<Rightarrow> quaternion \<Rightarrow> quaternion" where
  "quat_mult p q =
     (let va = Vec3 (quat_x p) (quat_y p) (quat_z p);
          vb = Vec3 (quat_x q) (quat_y q) (quat_z q);
          tw = quat_w p * quat_w q - dot va vb;
          vaxvb = cross va vb
      in Quaternion (quat_w p * vec_x vb + quat_w q * vec_x va + vec_x vaxvb)
                    (quat_w p * vec_y vb + quat_w q * vec_y va + vec_y vaxvb)
                    (quat_w p * vec_z vb + quat_w q * vec_z va + vec_z vaxvb)
                    tw)"

definition quat_normalize :: "quaternion \<Rightarrow> quaternion" where
  "quat_normalize q =
     (let l = js_sqrt (quat_x q * quat_x q + quat_y q * quat_y q
                       + quat_z q * quat_z q + quat_w q * quat_w q)
      in if l = Fin 0 then Quaternion (Fin 0) (Fin 0) (Fin 0) (Fin 0)
         else let l' = Fin 1 / l
              in Quaternion (quat_x q * l') (quat_y q * l') (quat_z q * l') (quat_w q * l'))"

definition quat_vmult :: "quaternion \<Rightarrow> vec3 \<Rightarrow> vec3" where
  "quat_vmult q v =
     (let x = vec_x v; y = vec_y v; z = vec_z v;
          qx = quat_x q; qy = quat_y q; qz = quat_z q; qw = quat_w q;
          ix = qw * x + qy * z - qz * y;
          iy = qw * y + qz * x - qx * z;
          iz = qw * z + qx * y - qy * x;
          iw = - qx * x - qy * y - qz * z
      in V3 (ix * qw + iw * - qx + iy * - qz - iz * - qy)
            (iy * qw + iw * - qy + iz * - qx - ix * - qz)
            (iz * qw + iw * - qz + ix * - qy - iy * - qx))"

section \<open>Shapes\<close>

text \<open>
  The three shapes of the source.  \<open>Plane\<close> normalizes the normal it is given.
  A property that a shape does not have reads as \<open>undefined\<close>: NaN for the radius,
  which is only multiplied, and no vector for the normal and the half extents, whose
  fields are then read.
\<close>

datatype shape = SphereShape jsnum | PlaneShape vec3 | BoxShape vec3

definition Sphere :: "jsnum \<Rightarrow> shape" where
  "Sphere radius = SphereShape radius"

definition Box :: "vec3 \<Rightarrow> shape" where
  "Box halfExtents = BoxShape halfExtents"

definition Plane :: "vec3 \<Rightarrow> shape" where
  "Plane normal = PlaneShape (normalize3 normal)"

definition SPHERE :: int where "SPHERE = 1"
definition PLANE :: int where "PLANE = 2"
definition BOX :: int where "BOX = 4"

fun shape_type :: "shape \<Rightarrow> int" where
  "shape_type (SphereShape r) = SPHERE"
| "shape_type (PlaneShape n) = PLANE"
| "shape_type (BoxShape h) = BOX"

fun shape_radius :: "shape \<Rightarrow> jsnum" where
  "shape_radius (SphereShape r) = r"
| "shape_radius s = NaN"

fun shape_normal :: "shape \<Rightarrow> vec3 option" where
  "shape_normal (PlaneShape n) = Some n"
| "shape_normal s = None"

fun shape_halfExtents :: "shape \<Rightarrow> vec3 option" where
  "shape_halfExtents (BoxShape h) = Some h"
| "shape_halfExtents s = None"

fun calculateLocalInertia :: "shape \<Rightarrow> jsnum \<Rightarrow> vec3" where
  "calculateLocalInertia (SphereShape r) mass =
     (let I = Fin 2 * mass * r * r / Fin 5 in V3 I I I)"
| "calculateLocalInertia (BoxShape h) mass =
     V3 (Fin 1 / Fin 12 * mass * (vec_y h * vec_y h + vec_z h * vec_z h))
        (Fin 1 / Fin 12 * mass * (vec_x h * vec_x h + vec_z h * vec_z h))
        (Fin 1 / Fin 12 * mass * (vec_y h * vec_y h + vec_x h * vec_x h))"
| "calculateLocalInertia (PlaneShape n) mass = Vec3 (Fin 0) (Fin 0) (Fin 0)"

section \<open>Rigid bodies\<close>

text \<open>
  The fields \<open>_position\<close>, \<open>_velocity\<close>, ... of a RigidBody.  The reference \<open>_world\<close>
  is not a field of the model: a method of a body takes the world the body lives in as
  an argument.  \<open>body_id\<close> is \<open>_id\<close>: \<open>-1\<close> before the body is added to a world.
\<close>

record rigid_body =
  body_position :: vec3
  body_velocity :: vec3
  body_force :: vec3
  body_tau :: vec3
  body_quaternion :: quaternion
  body_rotvelo :: vec3
  body_mass :: jsnum
  body_shape :: shape
  body_inertia :: vec3
  body_id :: int

definition RigidBody :: "jsnum \<Rightarrow> shape \<Rightarrow> rigid_body" where
  "RigidBody mass shape =
     \<lparr> body_position = Vec3 (Fin 0) (Fin 0) (Fin 0),
       body_velocity = Vec3 (Fin 0) (Fin 0) (Fin 0),
       body_force = Vec3 (Fin 0) (Fin 0) (Fin 0),
       body_tau = Vec3 (Fin 0) (Fin 0) (Fin 0),
       body_quaternion = Quaternion (Fin 1) (Fin 0) (Fin 0) (Fin 0),
       body_rotvelo = Vec3 (Fin 0) (Fin 0) (Fin 0),
       body_mass = mass,
       body_shape = shape,
       body_inertia = calculateLocalInertia shape mass,
       body_id = - 1 \<rparr>"

text \<open>
  What the source raises: the TypeError and the ReferenceError of the language, the string
  that \<open>Mat3.solve\<close> throws, and the string that the base class of the broadphase throws.
\<close>

datatype error = TypeError | ReferenceError | CouldNotSolve | NotImplemented


section \<open>The solver's state\<close>

text \<open>
  The fields of a Solver.  The six arrays \<open>vxlambda\<close> ... \<open>wzlambda\<close> exist only
  after a \<open>reset\<close> with a nonzero number of bodies; before that they are
  \<open>undefined\<close> (\<open>None\<close>).
\<close>

record solver =
  solver_iter :: int
  solver_h :: jsnum
  solver_a :: jsnum
  solver_b :: jsnum
  solver_eps :: jsnum
  solver_k :: jsnum
  solver_d :: jsnum
  solver_G :: "jsnum list"
  solver_MinvTrace :: "jsnum list"
  solver_Fext :: "jsnum list"
  solver_q :: "jsnum list"
  solver_qdot :: "jsnum list"
  solver_n :: nat
  solver_upper :: "jsnum list"
  solver_lower :: "jsnum list"
  solver_hasupper :: "bool list"
  solver_haslower :: "bool list"
  solver_i :: "int list"
  solver_j :: "int list"
  solver_vxlambda :: "jsnum list option"
  solver_vylambda :: "jsnum list option"
  solver_vzlambda :: "jsnum list option"
  solver_wxlambda :: "jsnum list option"
  solver_wylambda :: "jsnum list option"
  solver_wzlambda :: "jsnum list option"
  solver_result :: "jsnum list"

definition reset :: "nat \<Rightarrow> solver \<Rightarrow> solver" where
  "reset numbodies s =
     (let s1 = s \<lparr> solver_G := [], solver_MinvTrace := [], solver_Fext := [],
                    solver_q := [], solver_qdot := [], solver_n := 0,
                    solver_upper := [], solver_lower := [],
                    solver_hasupper := [], solver_haslower := [],
                    solver_i := [], solver_j := [] \<rparr>
      in if numbodies \<noteq> 0
         then s1 \<lparr> solver_vxlambda := Some (replicate numbodies (Fin 0)),
                   solver_vylambda := Some (replicate numbodies (Fin 0)),
                   solver_vzlambda := Some (replicate numbodies (Fin 0)),
                   solver_wxlambda := Some (replicate numbodies (Fin 0)),
                   solver_wylambda := Some (replicate numbodies (Fin 0)),
                   solver_wzlambda := Some (replicate numbodies (Fin 0)) \<rparr>
         else s1)"

text \<open>\<open>iter || 10\<close> and \<open>h || 1.0/60.0\<close>: a falsy argument takes the default.\<close>

definition Solver ::
  "jsnum \<Rightarrow> jsnum \<Rightarrow> jsnum \<Rightarrow> jsnum \<Rightarrow> jsnum \<Rightarrow> int \<Rightarrow> jsnum \<Rightarrow> solver" where
  "Solver a b eps k d iter h =
     reset 0
       \<lparr> solver_iter = (if iter = 0 then 10 else iter),
         solver_h = (if h = NaN \<or> h = Fin 0 then Fin 1 / Fin 60 else h),
         solver_a = a, solver_b = b, solver_eps = eps, solver_k = k, solver_d = d,
         solver_G = [], solver_MinvTrace = [], solver_Fext = [],
         solver_q = [], solver_qdot = [], solver_n = 0,
         solver_upper = [], solver_lower = [],
         solver_hasupper = [], solver_haslower = [],
         solver_i = [], solver_j = [],
         solver_vxlambda = None, solver_vylambda = None, solver_vzlambda = None,
         solver_wxlambda = None, solver_wylambda = None, solver_wzlambda = None,
         solver_result = [] \<rparr>"

section \<open>The world\<close>

text \<open>
  The fields of a World: one array per body property, indexed by the body's index.
  Before the first \<open>add\<close> the arrays of the source are \<open>undefined\<close> and
  \<open>numObjects\<close> is 0; since \<open>add\<close> only grows them, an empty list stands for
  \<open>undefined\<close>.  \<open>world_gravity\<close> is \<open>None\<close> until \<open>gravity(g)\<close> has stored a vector.
\<close>

record world =
  world_paused :: bool
  world_time :: jsnum
  world_stepnumber :: nat
  world_spook_k :: jsnum
  world_spook_d :: jsnum
  world_spook_b :: jsnum
  world_solver :: solver
  world_gravity :: "vec3 option"
  world_x :: "jsnum list"
  world_y :: "jsnum list"
  world_z :: "jsnum list"
  world_vx :: "jsnum list"
  world_vy :: "jsnum list"
  world_vz :: "jsnum list"
  world_fx :: "jsnum list"
  world_fy :: "jsnum list"
  world_fz :: "jsnum list"
  world_taux :: "jsnum list"
  world_tauy :: "jsnum list"
  world_tauz :: "jsnum list"
  world_wx :: "jsnum list"
  world_wy :: "jsnum list"
  world_wz :: "jsnum list"
  world_qx :: "jsnum list"
  world_qy :: "jsnum list"
  world_qz :: "jsnum list"
  world_qw :: "jsnum list"
  world_type :: "int list"
  world_body :: "rigid_body list"
  world_fixed :: "int list"
  world_mass :: "jsnum list"
  world_inertiax :: "jsnum list"
  world_inertiay :: "jsnum list"
  world_inertiaz :: "jsnum list"
  world_invm :: "jsnum list"
  world_collision_matrix :: "int list"

definition spook_a :: "jsnum \<Rightarrow> jsnum \<Rightarrow> jsnum" where
  "spook_a d h = Fin 4 / (h * (Fin 1 + Fin 4 * d))"

definition spook_eps :: "jsnum \<Rightarrow> jsnum \<Rightarrow> jsnum \<Rightarrow> jsnum" where
  "spook_eps k d h = Fin 4 / (h * h * k * (Fin 1 + Fin 4 * d))"

definition World :: world where
  "World =
     (let k = Fin 3000; d = Fin 3; b = (Fin 4 * d) / (Fin 1 + Fin 4 * d)
      in \<lparr> world_paused = False, world_time = Fin 0, world_stepnumber = 0,
           world_spook_k = k, world_spook_d = d, world_spook_b = b,
           world_solver = Solver (spook_a d (Fin 1 / Fin 60)) b
                                 (spook_eps k d (Fin 1 / Fin 60)) k d 5 (Fin 1 / Fin 60),
           world_gravity = None,
           world_x = [], world_y = [], world_z = [],
           world_vx = [], world_vy = [], world_vz = [],
           world_fx = [], world_fy = [], world_fz = [],
           world_taux = [], world_tauy = [], world_tauz = [],
           world_wx = [], world_wy = [], world_wz = [],
           world_qx = [], world_qy = [], world_qz = [], world_qw = [],
           world_type = [], world_body = [], world_fixed = [], world_mass = [],
           world_inertiax = [], world_inertiay = [], world_inertiaz = [],
           world_invm = [], world_collision_matrix = [] \<rparr>)"

definition set_gravity :: "vec3 \<Rightarrow> world \<Rightarrow> world" where
  "set_gravity g w = w \<lparr> world_gravity := Some g \<rparr>"

definition numObjects :: "world \<Rightarrow> nat" where
  "numObjects w = length (world_x w)"

text \<open>A write into the Int16Array \<open>collision_matrix\<close> at an integer index.\<close>

definition cm_write :: "int list \<Rightarrow> int \<Rightarrow> int \<Rightarrow> int list" where
  "cm_write cm idx v = (if 0 \<le> idx then cm[nat idx := v] else cm)"

fun clear_loop :: "nat \<Rightarrow> int \<Rightarrow> nat list \<Rightarrow> int list \<Rightarrow> int list" where
  "clear_loop n i [] cm = cm"
| "clear_loop n i (j # js) cm =
     clear_loop n i js
       (if int j < i then cm_write cm (int j + i * int n) 0
        else cm_write cm (i + int j * int n) 0)"

definition clearCollisionState :: "rigid_body \<Rightarrow> world \<Rightarrow> world" where
  "clearCollisionState body w =
     (let n = numObjects w
      in w \<lparr> world_collision_matrix :=
               clear_loop n (body_id body) [0..<n] (world_collision_matrix w) \<rparr>)"

text \<open>
  \<open>World.add\<close>: every array is replaced by a new one of length \<open>n + 1\<close> that holds the
  first \<open>n\<close> elements of the old one and the body's own value at index \<open>n\<close>.  The body
  gets \<open>_id = n\<close>; the world keeps the body in \<open>body[n]\<close>.  The collision matrix is
  replaced by a zeroed one.
\<close>

definition grow :: "nat \<Rightarrow> jsnum list \<Rightarrow> jsnum \<Rightarrow> jsnum list" where
  "grow n old v = map (rd old) [0..<n] @ [v]"

definition growi :: "nat \<Rightarrow> int list \<Rightarrow> int \<Rightarrow> int list" where
  "growi n old v = map (\<lambda>i. if i < length old then old ! i else 0) [0..<n] @ [v]"

definition add :: "rigid_body \<Rightarrow> world \<Rightarrow> world \<times> rigid_body" where
  "add body w =
     (let n = numObjects w;
          body' = body \<lparr> body_id := int n \<rparr>
      in (w \<lparr> world_x := grow n (world_x w) (vec_x (body_position body)),
               world_y := grow n (world_y w) (vec_y (body_position body)),
               world_z := grow n (world_z w) (vec_z (body_position body)),
               world_vx := grow n (world_vx w) (vec_x (body_velocity body)),
               world_vy := grow n (world_vy w) (vec_y (body_velocity body)),
               world_vz := grow n (world_vz w) (vec_z (body_velocity body)),
               world_fx := grow n (world_fx w) (vec_x (body_force body)),
               world_fy := grow n (world_fy w) (vec_y (body_force body)),
               world_fz := grow n (world_fz w) (vec_z (body_force body)),
               world_taux := grow n (world_taux w) (vec_x (body_tau body)),
               world_tauy := grow n (world_tauy w) (vec_y (body_tau body)),
               world_tauz := grow n (world_tauz w) (vec_z (body_tau body)),
               world_wx := grow n (world_wx w) (vec_x (body_rotvelo body)),
               world_wy := grow n (world_wy w) (vec_y (body_rotvelo body)),
               world_wz := grow n (world_wz w) (vec_z (body_rotvelo body)),
               world_qx := grow n (world_qx w) (quat_x (body_quaternion body)),
               world_qy := grow n (world_qy w) (quat_y (body_quaternion body)),
               world_qz := grow n (world_qz w) (quat_z (body_quaternion body)),
               world_qw := grow n (world_qw w) (quat_w (body_quaternion body)),
               world_type := growi n (world_type w) (shape_type (body_shape body)),
               world_body := take n (world_body w) @ [body'],
               world_fixed := growi n (world_fixed w)
                                (if body_mass body \<le> Fin 0 then 1 else 0),
               world_invm := grow n (world_invm w)
                                (if Fin 0 < body_mass body then Fin 1 / body_mass body
                                 else Fin 0),
               world_mass := grow n (world_mass w) (body_mass body),
               world_inertiax := grow n (world_inertiax w) (vec_x (body_inertia body)),
               world_inertiay := grow n (world_inertiay w) (vec_y (body_inertia body)),
               world_inertiaz := grow n (world_inertiaz w) (vec_z (body_inertia body)),
               world_collision_matrix := replicate ((n + 1) * (n + 1)) 0 \<rparr>,
          body'))"


section \<open>Getters and setters of a rigid body\<close>

text \<open>
  A body with \<open>_id \<noteq> -1\<close> reads and writes the arrays of its world at index \<open>_id\<close>;
  a body with \<open>_id = -1\<close> reads and writes its own fields.  A setter returns the world
  and the body after the call.
\<close>

definition rda :: "jsnum list \<Rightarrow> int \<Rightarrow> jsnum" where
  "rda xs k = (if 0 \<le> k then rd xs (nat k) else NaN)"

definition wra :: "'a list \<Rightarrow> int \<Rightarrow> 'a \<Rightarrow> 'a list" where
  "wra xs k v = (if 0 \<le> k then xs[nat k := v] else xs)"

definition mass_get :: "world \<Rightarrow> rigid_body \<Rightarrow> jsnum" where
  "mass_get w b =
     (if body_id b \<noteq> - 1 then rda (world_mass w) (body_id b) else body_mass b)"

definition mass_set :: "world \<Rightarrow> rigid_body \<Rightarrow> jsnum \<Rightarrow> world \<times> rigid_body" where
  "mass_set w b m =
     (if body_id b \<noteq> - 1
      then (w \<lparr> world_mass := wra (world_mass w) (body_id b) m,
               world_invm := wra (world_invm w) (body_id b) (Fin 1 / m) \<rparr>, b)
      else (w, b \<lparr> body_mass := m \<rparr>))"

definition shape_get :: "world \<Rightarrow> rigid_body \<Rightarrow> shape" where
  "shape_get w b = body_shape b"


definition setPosition ::
  "world \<Rightarrow> rigid_body \<Rightarrow> jsnum \<Rightarrow> jsnum \<Rightarrow> jsnum \<Rightarrow> world \<times> rigid_body" where
  "setPosition w b x y z =
     (if body_id b \<noteq> - 1
      then (clearCollisionState b
              (w \<lparr> world_x := wra (world_x w) (body_id b) x,
                   world_y := wra (world_y w) (body_id b) y,
                   world_z := wra (world_z w) (body_id b) z \<rparr>), b)
      else (w, b \<lparr> body_position := V3 x y z \<rparr>))"

definition getPosition :: "world \<Rightarrow> rigid_body \<Rightarrow> vec3" where
  "getPosition w b =
     (if body_id b \<noteq> - 1
      then V3 (rda (world_x w) (body_id b)) (rda (world_y w) (body_id b))
              (rda (world_z w) (body_id b))
      else V3 (vec_x (body_position b)) (vec_y (body_position b))
              (vec_z (body_position b)))"

definition setOrientation ::
  "world \<Rightarrow> rigid_body \<Rightarrow> jsnum \<Rightarrow> jsnum \<Rightarrow> jsnum \<Rightarrow> jsnum \<Rightarrow> world \<times> rigid_body" where
  "setOrientation w b x y z qw =
     (let q = quat_normalize (Quaternion x y z qw)
      in if body_id b \<noteq> - 1
         then (w \<lparr> world_qx := wra (world_qx w) (body_id b) (quat_x q),
                   world_qy := wra (world_qy w) (body_id b) (quat_y q),
                   world_qz := wra (world_qz w) (body_id b) (quat_z q),
                   world_qw := wra (world_qw w) (body_id b) (quat_w q) \<rparr>, b)
         else (w, b \<lparr> body_quaternion := q \<rparr>))"


definition setVelocity ::
  "world \<Rightarrow> rigid_body \<Rightarrow> jsnum \<Rightarrow> jsnum \<Rightarrow> jsnum \<Rightarrow> world \<times> rigid_body" where
  "setVelocity w b x y z =
     (if body_id b \<noteq> - 1
      then (w \<lparr> world_vx := wra (world_vx w) (body_id b) x,
               world_vy := wra (world_vy w) (body_id b) y,
               world_vz := wra (world_vz w) (body_id b) z \<rparr>, b)
      else (w, b \<lparr> body_velocity := V3 x y z \<rparr>))"

text \<open>The attached branch of \<open>getVelocity\<close> reads the arrays \<open>x\<close>, \<open>y\<close>, \<open>z\<close>.\<close>

definition getVelocity :: "world \<Rightarrow> rigid_body \<Rightarrow> vec3" where
  "getVelocity w b =
     (if body_id b \<noteq> - 1
      then V3 (rda (world_x w) (body_id b)) (rda (world_y w) (body_id b))
              (rda (world_z w) (body_id b))
      else V3 (vec_x (body_velocity b)) (vec_y (body_velocity b))
              (vec_z (body_velocity b)))"


definition getAngularvelocity :: "world \<Rightarrow> rigid_body \<Rightarrow> vec3" where
  "getAngularvelocity w b =
     (if body_id b \<noteq> - 1
      then V3 (rda (world_wx w) (body_id b)) (rda (world_wy w) (body_id b))
              (rda (world_wz w) (body_id b))
      else V3 (vec_x (body_rotvelo b)) (vec_y (body_rotvelo b))
              (vec_z (body_rotvelo b)))"


definition getForce :: "world \<Rightarrow> rigid_body \<Rightarrow> vec3" where
  "getForce w b =
     (if body_id b \<noteq> - 1
      then V3 (rda (world_fx w) (body_id b)) (rda (world_fy w) (body_id b))
              (rda (world_fz w) (body_id b))
      else V3 (vec_x (body_force b)) (vec_y (body_force b)) (vec_z (body_force b)))"

definition setTorque ::
  "world \<Rightarrow> rigid_body \<Rightarrow> jsnum \<Rightarrow> jsnum \<Rightarrow> jsnum \<Rightarrow> world \<times> rigid_body" where
  "setTorque w b x y z =
     (if body_id b \<noteq> - 1
      then (w \<lparr> world_taux := wra (world_taux w) (body_id b) x,
               world_tauy := wra (world_tauy w) (body_id b) y,
               world_tauz := wra (world_tauz w) (body_id b) z \<rparr>, b)
      else (w, b \<lparr> body_tau := V3 x y z \<rparr>))"

text \<open>
  The detached branch of \<open>getTorque\<close> reads \<open>this._torque.x\<close>.  The constructor and
  \<open>setTorque\<close> store the torque in \<open>_tau\<close> and nothing defines \<open>_torque\<close>, so
  \<open>this._torque\<close> is \<open>undefined\<close> and reading its field raises a TypeError.
\<close>

definition getTorque :: "world \<Rightarrow> rigid_body \<Rightarrow> error + vec3" where
  "getTorque w b =
     (if body_id b \<noteq> - 1
      then Inr (V3 (rda (world_taux w) (body_id b)) (rda (world_tauy w) (body_id b))
                   (rda (world_tauz w) (body_id b)))
      else Inl TypeError)"


section \<open>Mat3.solve\<close>

text \<open>
  A Mat3 is its array \<open>elements\<close> of nine numbers.  \<open>solve(b)\<close> copies the matrix and
  \<open>b\<close> into the array \<open>eqns\<close> of twelve numbers (\<open>eqns[i + 4 * j] = elements[i + 3 * j]\<close>,
  \<open>eqns[3 + 4 * j]\<close> the components of \<open>b\<close>), runs its elimination loop for
  \<open>i = 0, 1, 2\<close>, computes the solution by back substitution and raises when a component
  is NaN or equal to \<open>Infinity\<close>.
\<close>

definition solve_init :: "jsnum list \<Rightarrow> vec3 \<Rightarrow> jsnum list" where
  "solve_init elements b =
     [rd elements 0, rd elements 1, rd elements 2, vec_x b,
      rd elements 3, rd elements 4, rd elements 5, vec_y b,
      rd elements 6, rd elements 7, rd elements 8, vec_z b]"

text \<open>
  The three writes that end both inner loops:
  \<open>eqns[c + 4 * 0] = els[0]; eqns[c + 4 * 1] = els[1]; eqns[c + 4 * 2] = els[2]\<close>.
\<close>

definition store_els :: "jsnum list \<Rightarrow> nat \<Rightarrow> jsnum list \<Rightarrow> jsnum list" where
  "store_els eqns c els = eqns[c := els ! 0, c + 4 := els ! 1, c + 8 := els ! 2]"

text \<open>The first inner loop, entered when the pivot is 0: it stops at the first \<open>j\<close>
  whose entry is not 0.\<close>

fun pivot_fix :: "nat \<Rightarrow> nat list \<Rightarrow> jsnum list \<Rightarrow> jsnum list" where
  "pivot_fix i [] eqns = eqns"
| "pivot_fix i (j # js) eqns =
     (if eqns ! (i + 4 * j) \<noteq> Fin 0
      then store_els eqns i (map (\<lambda>p. eqns ! (p + 4 * i) + eqns ! (p + 4 * j)) [0..<4])
      else pivot_fix i js eqns)"

text \<open>The second inner loop, entered when the pivot is not 0.\<close>

fun eliminate :: "nat \<Rightarrow> nat list \<Rightarrow> jsnum list \<Rightarrow> jsnum list" where
  "eliminate i [] eqns = eqns"
| "eliminate i (j # js) eqns =
     (let multiplier = eqns ! (i + 4 * j) / eqns ! (i + 4 * i);
          els = map (\<lambda>p. if p \<le> i then Fin 0
                           else eqns ! (p + 4 * j) - eqns ! (p + 4 * i) * multiplier) [0..<4]
      in eliminate i js (store_els eqns j els))"

definition gauss_step :: "nat \<Rightarrow> jsnum list \<Rightarrow> jsnum list" where
  "gauss_step i eqns =
     (let e1 = (if eqns ! (i + 4 * i) = Fin 0 then pivot_fix i [i + 1..<3] eqns else eqns)
      in if e1 ! (i + 4 * i) \<noteq> Fin 0 then eliminate i [i + 1..<3] e1 else e1)"

text \<open>\<open>do { i = k - n; ... } while (--n)\<close> with \<open>k = 3\<close>, started at \<open>n = 3\<close>.\<close>

fun gauss :: "nat \<Rightarrow> jsnum list \<Rightarrow> jsnum list" where
  "gauss 0 eqns = eqns"
| "gauss (Suc m) eqns = gauss m (gauss_step (3 - Suc m) eqns)"

definition back_substitute :: "jsnum list \<Rightarrow> vec3" where
  "back_substitute eqns =
     (let z = eqns ! 11 / eqns ! 10;
          y = (eqns ! 7 - eqns ! 6 * z) / eqns ! 5;
          x = (eqns ! 3 - eqns ! 2 * z - eqns ! 1 * y) / eqns ! 0
      in V3 x y z)"

definition Mat3_solve :: "jsnum list \<Rightarrow> vec3 \<Rightarrow> error + vec3" where
  "Mat3_solve elements b =
     (let target = back_substitute (gauss 3 (solve_init elements b))
      in if isNaN (vec_x target) \<or> isNaN (vec_y target) \<or> isNaN (vec_z target)
            \<or> vec_x target = PInf \<or> vec_y target = PInf \<or> vec_z target = PInf
         then Inl CouldNotSolve
         else Inr target)"

section \<open>The impulse of a first contact\<close>

text \<open>
  \<open>_addImpulse(i, j, ri, rj, ui, ni, e, mu)\<close>.  The matrix \<open>K\<close> is the diagonal matrix
  of \<open>invm[i] + invm[j]\<close>: the source computes the cross product matrices of \<open>ri\<close> and
  \<open>rj\<close> and their products with the inverse inertia, but the loop that would subtract
  them from \<open>K\<close> is commented out.  The parameter \<open>mu\<close> is overwritten with 0, so the
  friction branch never runs.  The six velocity updates run in the source's order, each
  on the arrays the one before it left; the updates of the angular velocity are
  commented out.
\<close>

definition addImpulse ::
  "world \<Rightarrow> nat \<Rightarrow> nat \<Rightarrow> vec3 \<Rightarrow> vec3 \<Rightarrow> vec3 \<Rightarrow> vec3 \<Rightarrow> jsnum \<Rightarrow> jsnum \<Rightarrow> error + world" where
  "addImpulse w i j ri rj ui ni e mu =
     (let im = rd (world_invm w) i + rd (world_invm w) j;
          K = [im, Fin 0, Fin 0, Fin 0, im, Fin 0, Fin 0, Fin 0, im];
          v_f = mult3 ni (- e * dot ui ni)
      in case Mat3_solve K (vsub v_f ui) of
           Inl err \<Rightarrow> Inl err
         | Inr J \<Rightarrow>
             (let imi = rd (world_invm w) i;
                  imj = rd (world_invm w) j;
                  vx1 = (world_vx w)[i := rd (world_vx w) i
                           + (vec_x J * imi - (rd (world_vx w) j - vec_x ui))];
                  vy1 = (world_vy w)[i := rd (world_vy w) i
                           + (vec_y J * imi - (rd (world_vy w) j - vec_y ui))];
                  vz1 = (world_vz w)[i := rd (world_vz w) i
                           + (vec_z J * imi - (rd (world_vz w) j - vec_z ui))];
                  vx2 = vx1[j := rd vx1 j - (vec_x J * imj - (rd vx1 i - vec_x ui))];
                  vy2 = vy1[j := rd vy1 j - (vec_y J * imj - (rd vy1 i - vec_y ui))];
                  vz2 = vz1[j := rd vz1 j - (vec_z J * imj - (rd vz1 i - vec_z ui))]
              in Inr (w \<lparr> world_vx := vx2, world_vy := vy2, world_vz := vz2 \<rparr>)))"

section \<open>The solver\<close>

text \<open>
  \<open>addConstraint\<close> appends the twelve entries of each of its five arrays, and appends
  \<open>upper\<close>, \<open>!isNaN(upper)\<close>, \<open>lower\<close> and \<open>!isNaN(lower)\<close> twelve times each (the
  pushes stand inside the loop over the twelve entries).  The bounds are numbers here; the string \<open>'inf'\<close> that \<open>step\<close> passes
  as upper bound converts to NaN wherever the solver uses it (\<open>isNaN\<close>, \<open>>\<close>), and
  is NaN in the model.  It returns the solver and the index of the new row.
\<close>

definition addConstraint ::
  "solver \<Rightarrow> jsnum list \<Rightarrow> jsnum list \<Rightarrow> jsnum list \<Rightarrow> jsnum list \<Rightarrow> jsnum list
     \<Rightarrow> jsnum \<Rightarrow> jsnum \<Rightarrow> int \<Rightarrow> int \<Rightarrow> solver \<times> nat" where
  "addConstraint s G MinvTrace q qdot Fext lower upper body_i body_j =
     (s \<lparr> solver_q := solver_q s @ map (rd q) [0..<12],
           solver_qdot := solver_qdot s @ map (rd qdot) [0..<12],
           solver_MinvTrace := solver_MinvTrace s @ map (rd MinvTrace) [0..<12],
           solver_G := solver_G s @ map (rd G) [0..<12],
           solver_Fext := solver_Fext s @ map (rd Fext) [0..<12],
           solver_upper := solver_upper s @ replicate 12 upper,
           solver_hasupper := solver_hasupper s @ replicate 12 (\<not> isNaN upper),
           solver_lower := solver_lower s @ replicate 12 lower,
           solver_haslower := solver_haslower s @ replicate 12 (\<not> isNaN lower),
           solver_i := solver_i s @ [body_i],
           solver_j := solver_j s @ [body_j],
           solver_n := solver_n s + 1 \<rparr>,
      solver_n s)"

text \<open>
  The local arrays of \<open>solve\<close> and the six arrays of velocity changes, while the sweeps
  run.
\<close>

record solve_state =
  st_lambda :: "jsnum list"
  st_dlambda :: "jsnum list"
  st_B :: "jsnum list"
  st_c :: "jsnum list"
  st_precomp :: "bool list"
  st_vxlambda :: "jsnum list"
  st_vylambda :: "jsnum list"
  st_vzlambda :: "jsnum list"
  st_wxlambda :: "jsnum list"
  st_wylambda :: "jsnum list"
  st_wzlambda :: "jsnum list"

text \<open>A sum \<open>acc += f(i)\<close> over \<open>i = 0, ..., 11\<close>, started at 0.\<close>

definition sum12 :: "(nat \<Rightarrow> jsnum) \<Rightarrow> jsnum" where
  "sum12 f = foldl (\<lambda>acc i. acc + f i) (Fin 0) [0..<12]"

text \<open>An object is truthy: \<open>this.hasupper\<close>, the array itself, in a condition.\<close>

definition array_truthy :: "'a list \<Rightarrow> bool" where
  "array_truthy xs = True"

text \<open>An element of an Int16Array of body indices, and of the plain array \<open>this.j\<close>;
  an index outside the array reads like index \<open>-1\<close>, as \<open>undefined\<close>.\<close>

definition Int16 :: "int \<Rightarrow> int" where
  "Int16 v = sint (word_of_int v :: 16 word)"

definition body_index :: "int list \<Rightarrow> nat \<Rightarrow> int" where
  "body_index xs l = (if l < length xs then xs ! l else - 1)"

definition flag :: "bool list \<Rightarrow> nat \<Rightarrow> bool" where
  "flag xs l = (l < length xs \<and> xs ! l)"

text \<open>The precomputation of \<open>c[l]\<close> and \<open>B[l]\<close>, done the first time row \<open>l\<close> is visited.\<close>

definition precompute :: "solver \<Rightarrow> solve_state \<Rightarrow> nat \<Rightarrow> solve_state" where
  "precompute s st l =
     (let l12 = 12 * l;
          G = solver_G s; Minv = solver_MinvTrace s;
          G_Minv_Gt = sum12 (\<lambda>i. rd G (l12 + i) * rd Minv (l12 + i) * rd G (l12 + i));
          Gq = sum12 (\<lambda>i. rd G (l12 + i) * rd (solver_q s) (l12 + i));
          GW = sum12 (\<lambda>i. rd G (l12 + i) * rd (solver_qdot s) (l12 + i));
          GMinvf = sum12 (\<lambda>i. rd G (l12 + i) * rd Minv (l12 + i) * rd (solver_Fext s) (l12 + i))
      in st \<lparr> st_c := (st_c st)[l := Fin 1 / (G_Minv_Gt + solver_eps s)],
               st_B := (st_B st)[l := - solver_a s * Gq - solver_b s * GW - solver_h s * GMinvf],
               st_precomp := (st_precomp st)[l := True] \<rparr>)"

text \<open>
  One visit of row \<open>l\<close>, statement by statement.  First the new \<open>dlambda[l]\<close> and
  \<open>lambda[l]\<close>.
\<close>

definition row_lambda :: "solver \<Rightarrow> nat \<Rightarrow> solve_state \<Rightarrow> solve_state" where
  "row_lambda s l st =
     (let body_i = body_index (solver_i s) l;
          body_j = body_index (solver_j s) l;
          l12 = 12 * l;
          G = solver_G s;
          Gulambda = Fin 0
             + rd G (0 + l12) * rda (st_vxlambda st) body_i
             + rd G (1 + l12) * rda (st_vylambda st) body_i
             + rd G (2 + l12) * rda (st_vzlambda st) body_i
             + rd G (3 + l12) * rda (st_wxlambda st) body_i
             + rd G (4 + l12) * rda (st_wylambda st) body_i
             + rd G (5 + l12) * rda (st_wzlambda st) body_i
             + rd G (6 + l12) * rda (st_vxlambda st) body_j
             + rd G (7 + l12) * rda (st_vylambda st) body_j
             + rd G (8 + l12) * rda (st_vzlambda st) body_j
             + rd G (9 + l12) * rda (st_wxlambda st) body_j
             + rd G (10 + l12) * rda (st_wylambda st) body_j
             + rd G (11 + l12) * rda (st_wzlambda st) body_j;
          dl = (st_dlambda st)[l := rd (st_c st) l
                  * (rd (st_B st) l - Gulambda - solver_eps s * rd (st_lambda st) l)]
      in st \<lparr> st_dlambda := dl,
               st_lambda := (st_lambda st)[l := rd (st_lambda st) l + rd dl l] \<rparr>)"

text \<open>
  The two clamps.  Each stores the bound in \<open>lambda[l]\<close> first and then sets
  \<open>dlambda[l]\<close> to the bound minus \<open>lambda[l]\<close>.  The lower clamp tests the row's
  flag \<open>haslower[l]\<close>; the upper clamp tests \<open>this.hasupper\<close>, the array.
\<close>

definition clamp_lower :: "solver \<Rightarrow> nat \<Rightarrow> solve_state \<Rightarrow> solve_state" where
  "clamp_lower s l st =
     (if flag (solver_haslower s) l \<and> rd (st_lambda st) l < rd (solver_lower s) l
      then (let la = (st_lambda st)[l := rd (solver_lower s) l]
            in st \<lparr> st_lambda := la,
                     st_dlambda := (st_dlambda st)[l := rd (solver_lower s) l - rd la l] \<rparr>)
      else st)"

definition clamp_upper :: "solver \<Rightarrow> nat \<Rightarrow> solve_state \<Rightarrow> solve_state" where
  "clamp_upper s l st =
     (if array_truthy (solver_hasupper s) \<and> rd (solver_upper s) l < rd (st_lambda st) l
      then (let la = (st_lambda st)[l := rd (solver_upper s) l]
            in st \<lparr> st_lambda := la,
                     st_dlambda := (st_dlambda st)[l := rd (solver_upper s) l - rd la l] \<rparr>)
      else st)"

text \<open>The twelve updates of the velocity changes of the row's two bodies, in the
  source's order: \<open>this.vxlambda[body_i] += dlambda[l] * this.MinvTrace[l12+0] * G[l12+0]\<close>
  and so on.\<close>

definition add_to :: "jsnum list \<Rightarrow> int \<Rightarrow> jsnum \<Rightarrow> jsnum list" where
  "add_to xs k v = wra xs k (rda xs k + v)"

definition row_velocities :: "solver \<Rightarrow> nat \<Rightarrow> solve_state \<Rightarrow> solve_state" where
  "row_velocities s l st =
     (let body_i = body_index (solver_i s) l;
          body_j = body_index (solver_j s) l;
          l12 = 12 * l;
          G = solver_G s; Minv = solver_MinvTrace s;
          d = rd (st_dlambda st) l
      in st \<lparr> st_vxlambda :=
                 add_to (add_to (st_vxlambda st) body_i (d * rd Minv (l12 + 0) * rd G (l12 + 0)))
                        body_j (d * rd Minv (l12 + 6) * rd G (l12 + 6)),
               st_vylambda :=
                 add_to (add_to (st_vylambda st) body_i (d * rd Minv (l12 + 1) * rd G (l12 + 1)))
                        body_j (d * rd Minv (l12 + 7) * rd G (l12 + 7)),
               st_vzlambda :=
                 add_to (add_to (st_vzlambda st) body_i (d * rd Minv (l12 + 2) * rd G (l12 + 2)))
                        body_j (d * rd Minv (l12 + 8) * rd G (l12 + 8)),
               st_wxlambda :=
                 add_to (add_to (st_wxlambda st) body_i (d * rd Minv (l12 + 3) * rd G (l12 + 3)))
                        body_j (d * rd Minv (l12 + 9) * rd G (l12 + 9)),
               st_wylambda :=
                 add_to (add_to (st_wylambda st) body_i (d * rd Minv (l12 + 4) * rd G (l12 + 4)))
                        body_j (d * rd Minv (l12 + 10) * rd G (l12 + 10)),
               st_wzlambda :=
                 add_to (add_to (st_wzlambda st) body_i (d * rd Minv (l12 + 5) * rd G (l12 + 5)))
                        body_j (d * rd Minv (l12 + 11) * rd G (l12 + 11)) \<rparr>)"

definition solve_row :: "solver \<Rightarrow> nat \<Rightarrow> solve_state \<Rightarrow> solve_state" where
  "solve_row s l st =
     row_velocities s l
       (clamp_upper s l
         (clamp_lower s l
           (row_lambda s l
             (if \<not> flag (st_precomp st) l then precompute s st l else st))))"

text \<open>The rows \<open>0, ..., n - 1\<close> of one sweep, and the sweeps.\<close>

fun sweep_rows :: "solver \<Rightarrow> nat list \<Rightarrow> solve_state \<Rightarrow> solve_state" where
  "sweep_rows s [] st = st"
| "sweep_rows s (l # ls) st = sweep_rows s ls (solve_row s l st)"

fun sweeps :: "solver \<Rightarrow> nat \<Rightarrow> solve_state \<Rightarrow> solve_state" where
  "sweeps s 0 st = st"
| "sweeps s (Suc k) st = sweeps s k (sweep_rows s [0..<solver_n s] st)"

text \<open>
  \<open>solve\<close>: \<open>this.i\<close> becomes an Int16Array, the local arrays are allocated with
  \<open>n\<close> zeros, and \<open>iter\<close> sweeps visit the rows \<open>0, ..., n - 1\<close> in order.  The first
  row visited reads the six arrays of velocity changes: when they are still
  \<open>undefined\<close> that read raises a TypeError.  \<open>result\<close> is the array \<open>ulambda\<close>, which
  nothing writes.
\<close>

definition solve_sweeps :: "solver \<Rightarrow> solve_state \<Rightarrow> solve_state" where
  "solve_sweeps s st = sweeps s (nat (solver_iter s)) st"

definition solve_start ::
  "nat \<Rightarrow> jsnum list \<Rightarrow> jsnum list \<Rightarrow> jsnum list \<Rightarrow> jsnum list \<Rightarrow> jsnum list \<Rightarrow> jsnum list
     \<Rightarrow> solve_state" where
  "solve_start n vx vy vz wx wy wz =
     \<lparr> st_lambda = replicate n (Fin 0), st_dlambda = replicate n (Fin 0),
       st_B = replicate n (Fin 0), st_c = replicate n (Fin 0),
       st_precomp = replicate n False,
       st_vxlambda = vx, st_vylambda = vy, st_vzlambda = vz,
       st_wxlambda = wx, st_wylambda = wy, st_wzlambda = wz \<rparr>"

definition lambda_arrays :: "solver \<Rightarrow> solve_state option" where
  "lambda_arrays s =
     (case solver_vxlambda s of None \<Rightarrow> None | Some vx \<Rightarrow>
      case solver_vylambda s of None \<Rightarrow> None | Some vy \<Rightarrow>
      case solver_vzlambda s of None \<Rightarrow> None | Some vz \<Rightarrow>
      case solver_wxlambda s of None \<Rightarrow> None | Some wx \<Rightarrow>
      case solver_wylambda s of None \<Rightarrow> None | Some wy \<Rightarrow>
      case solver_wzlambda s of None \<Rightarrow> None | Some wz \<Rightarrow>
        Some (solve_start (solver_n s) vx vy vz wx wy wz))"

definition solve :: "solver \<Rightarrow> error + solver" where
  "solve s0 =
     (let s = s0 \<lparr> solver_i := map Int16 (solver_i s0) \<rparr>;
          n = solver_n s
      in if n = 0 \<or> solver_iter s \<le> 0
         then Inr (s \<lparr> solver_result := replicate (12 * n) (Fin 0) \<rparr>)
         else case lambda_arrays s of
                None \<Rightarrow> Inl TypeError
              | Some st0 \<Rightarrow>
                  (let st = solve_sweeps s st0
                   in Inr (s \<lparr> solver_vxlambda := Some (st_vxlambda st),
                                solver_vylambda := Some (st_vylambda st),
                                solver_vzlambda := Some (st_vzlambda st),
                                solver_wxlambda := Some (st_wxlambda st),
                                solver_wylambda := Some (st_wylambda st),
                                solver_wzlambda := Some (st_wzlambda st),
                                solver_result := replicate (12 * n) (Fin 0) \<rparr>)))"

section \<open>The contact history matrix\<close>

text \<open>
  \<open>cmatrix(i, j, which, newval)\<close>, the local function of \<open>step\<close>: \<open>which = 0\<close> is
  the current step and \<open>which = -1\<close> the previous one.  It swaps \<open>i\<close> and \<open>j\<close> when
  \<open>which = 0 \<and> i < j\<close> or \<open>which = -1 \<and> i > j\<close>, and then reads or writes
  \<open>collision_matrix[i + j * numObjects()]\<close>.  Without \<open>newval\<close> it reads; the
  values it is given to write are 0, 1 or an element read from the matrix, which
  \<open>parseInt\<close> and the store into the Int16Array leave as they are.
\<close>

definition cmatrix_index :: "nat \<Rightarrow> nat \<Rightarrow> nat \<Rightarrow> int \<Rightarrow> nat" where
  "cmatrix_index n i j which =
     (let (i', j') = (if (which = 0 \<and> i < j) \<or> (which = - 1 \<and> j < i) then (j, i)
                      else (i, j))
      in i' + j' * n)"

definition cmatrix_get :: "int list \<Rightarrow> nat \<Rightarrow> nat \<Rightarrow> nat \<Rightarrow> int \<Rightarrow> int option" where
  "cmatrix_get cm n i j which = rdi cm (cmatrix_index n i j which)"

definition cmatrix_set :: "int list \<Rightarrow> nat \<Rightarrow> nat \<Rightarrow> nat \<Rightarrow> int \<Rightarrow> int \<Rightarrow> int list" where
  "cmatrix_set cm n i j which newval = cm[cmatrix_index n i j which := newval]"

text \<open>
  The loop at the start of \<open>step\<close>: for \<open>i\<close> from 0 to \<open>n - 1\<close> and \<open>j\<close> from 0 to
  \<open>i - 1\<close>, \<open>cmatrix(i,j,-1, cmatrix(i,j,0)); cmatrix(i,j,0,0)\<close>.  When the inner call
  returns \<open>undefined\<close> the outer call has no \<open>newval\<close> and is a read.
\<close>

definition rotate_pair :: "nat \<Rightarrow> int list \<Rightarrow> nat \<times> nat \<Rightarrow> int list" where
  "rotate_pair n cm p =
     (case p of (i, j) \<Rightarrow>
        (let cm1 = (case cmatrix_get cm n i j 0 of
                      None \<Rightarrow> cm
                    | Some v \<Rightarrow> cmatrix_set cm n i j (- 1) v)
         in cmatrix_set cm1 n i j 0 0))"

definition lower_pairs :: "nat \<Rightarrow> (nat \<times> nat) list" where
  "lower_pairs n = concat (map (\<lambda>i. map (\<lambda>j. (i, j)) [0..<i]) [0..<n])"

definition rotate_history :: "nat \<Rightarrow> int list \<Rightarrow> int list" where
  "rotate_history n cm = foldl (rotate_pair n) cm (lower_pairs n)"

section \<open>The global variable \<open>world\<close>\<close>

text \<open>
  \<open>step\<close> reads the arrays of the bodies, the bodies, the gravity and the clock through
  the variable \<open>world\<close>, which it does not declare: a global variable of the program
  that uses the engine.  It reaches the contact history, the solver and \<open>_addImpulse\<close>
  through \<open>this\<close>.  When \<open>step\<close> runs, the variable \<open>world\<close> does not exist
  (\<open>None\<close> where \<open>step\<close> takes it), or it names the world that steps, or it names
  another world.  A state of the two is the world that steps together with what the
  variable names; \<open>on_world\<close> changes the world that the variable names and
  \<open>on_this\<close> the world that steps, which are one world in the case \<open>ThisWorld\<close>.
\<close>

datatype global_world = ThisWorld | OtherWorld world

definition world_of :: "global_world \<Rightarrow> world \<Rightarrow> world" where
  "world_of g th = (case g of ThisWorld \<Rightarrow> th | OtherWorld other \<Rightarrow> other)"

definition on_world ::
  "(world \<Rightarrow> world) \<Rightarrow> world \<times> global_world \<Rightarrow> world \<times> global_world" where
  "on_world f s =
     (case snd s of
        ThisWorld \<Rightarrow> (f (fst s), ThisWorld)
      | OtherWorld other \<Rightarrow> (fst s, OtherWorld (f other)))"

definition on_this ::
  "(world \<Rightarrow> world) \<Rightarrow> world \<times> global_world \<Rightarrow> world \<times> global_world" where
  "on_this f s = (f (fst s), snd s)"

section \<open>Narrowphase\<close>

text \<open>
  The three branches of the loop over the pairs in \<open>step\<close>.  The first argument
  \<open>th\<close> is the world that steps (\<open>this\<close>), the second argument \<open>w\<close> is the world
  that the variable \<open>world\<close> names; the result is the world that steps, after the
  branch.  \<open>world.body[i]._shape\<close>
  raises a TypeError when the world has no body \<open>i\<close>, and so does reading a field of
  a normal or of half extents that the shape does not have.  The collision matrix of a
  world that never had a body is \<open>undefined\<close>, and the write into it raises a
  TypeError.  The values the source
  computes and never uses (\<open>rsixn\<close>, \<open>xj\<close>, \<open>v_contact\<close>, \<open>cid\<close>, ...) are left out.
  The index \<open>pi\<close> of the plane is \<open>pi'\<close>, since \<open>pi\<close> is a constant of the logic.
\<close>

definition shape_at :: "world \<Rightarrow> nat \<Rightarrow> shape option" where
  "shape_at w i =
     (if i < length (world_body w) then Some (body_shape (world_body w ! i)) else None)"

text \<open>The upper bound \<open>'inf'\<close> that the narrowphase passes: a string, NaN as a number.\<close>

definition inf_string :: jsnum where
  "inf_string = NaN"

definition narrow_sphere_plane :: "world \<Rightarrow> world \<Rightarrow> nat \<Rightarrow> nat \<Rightarrow> error + world" where
  "narrow_sphere_plane th w si pi' =
     (case shape_at w pi' of None \<Rightarrow> Inl TypeError | Some plane \<Rightarrow>
      case shape_normal plane of None \<Rightarrow> Inl TypeError | Some normal \<Rightarrow>
      case shape_at w si of None \<Rightarrow> Inl TypeError | Some sphere \<Rightarrow>
       (let x = world_x w; y = world_y w; z = world_z w;
            n = negate normal;
            rsi = mult3 n (shape_radius sphere);
            point_on_plane_to_sphere =
              Vec3 (rd x si - rd x pi') (rd y si - rd y pi') (rd z si - rd z pi');
            xs = Vec3 (rd x si) (rd y si) (rd z si);
            plane_to_sphere = mult3 n (dot n point_on_plane_to_sphere);
            xp = vsub xs plane_to_sphere;
            rj = Vec3 (vec_x xp - rd x pi') (vec_y xp - rd y pi') (vec_z xp - rd z pi');
            qvec = Vec3 (vec_x xp - rd x si - vec_x rsi) (vec_y xp - rd y si - vec_y rsi)
                        (vec_z xp - rd z si - vec_z rsi);
            q = dot qvec n
        in if q < Fin 0
           then
             (if numObjects th = 0 then Inl TypeError
             else
             (let N = numObjects th;
                  cm = cmatrix_set (world_collision_matrix th) N si pi' 0 1;
                  th1 = th \<lparr> world_collision_matrix := cm \<rparr>;
                  v_sphere = Vec3 (rd (world_vx w) si) (rd (world_vy w) si) (rd (world_vz w) si);
                  u = v_sphere
              in if cmatrix_get cm N si pi' (- 1) = Some 0
                 then addImpulse th1 si pi' rsi rj u n (Fin (1/2)) (Fin (3/10))
                 else if cmatrix_get cm N si pi' (- 1) = Some 1
                 then
                   (let iM = rd (world_invm w) si;
                        iI = (if Fin 0 < rd (world_inertiax w) si
                              then Fin 1 / rd (world_inertiax w) si else Fin 0)
                    in Inr (th1 \<lparr> world_solver := fst (addConstraint (world_solver th1)
                         [- vec_x n, - vec_y n, - vec_z n, Fin 0, Fin 0, Fin 0,
                          Fin 0, Fin 0, Fin 0, Fin 0, Fin 0, Fin 0]
                         [iM, iM, iM, iI, iI, iI, Fin 0, Fin 0, Fin 0, Fin 0, Fin 0, Fin 0]
                         [- vec_x qvec, - vec_y qvec, - vec_z qvec, Fin 0, Fin 0, Fin 0,
                          Fin 0, Fin 0, Fin 0, Fin 0, Fin 0, Fin 0]
                         [vec_x v_sphere, vec_y v_sphere, vec_z v_sphere, Fin 0, Fin 0, Fin 0,
                          Fin 0, Fin 0, Fin 0, Fin 0, Fin 0, Fin 0]
                         [rd (world_fx w) si, rd (world_fy w) si, rd (world_fz w) si,
                          rd (world_taux w) si, rd (world_tauy w) si, rd (world_tauz w) si,
                          rd (world_fx w) pi', rd (world_fy w) pi', rd (world_fz w) pi',
                          rd (world_taux w) pi', rd (world_tauy w) pi', rd (world_tauz w) pi']
                         (Fin 0) inf_string (int si) (int pi')) \<rparr>))
                 else Inr th1))
           else Inr th))"

definition narrow_sphere_sphere :: "world \<Rightarrow> world \<Rightarrow> nat \<Rightarrow> nat \<Rightarrow> error + world" where
  "narrow_sphere_sphere th w i j =
     (case shape_at w i of None \<Rightarrow> Inl TypeError | Some sphere_i \<Rightarrow>
      case shape_at w j of None \<Rightarrow> Inl TypeError | Some sphere_j \<Rightarrow>
       (let x = world_x w; y = world_y w; z = world_z w;
            vx = world_vx w; vy = world_vy w; vz = world_vz w;
            ri = mult3 (normalize3 (Vec3 (rd x j - rd x i) (rd y j - rd y i) (rd z j - rd z i)))
                       (shape_radius sphere_i);
            rj = mult3 (normalize3 (Vec3 (rd x i - rd x j) (rd y i - rd y j) (rd z i - rd z j)))
                       (shape_radius sphere_j);
            ni = normalize3 (Vec3 (rd x j - rd x i) (rd y j - rd y i) (rd z j - rd z i));
            q_vec = Vec3 (rd x j + vec_x rj - rd x i - vec_x ri)
                         (rd y j + vec_y rj - rd y i - vec_y ri)
                         (rd z j + vec_z rj - rd z i - vec_z ri);
            q = dot q_vec ni
        in if q < Fin 0
           then
             (if numObjects th = 0 then Inl TypeError
             else
             (let N = numObjects th;
                  cm = cmatrix_set (world_collision_matrix th) N i j 0 1;
                  th1 = th \<lparr> world_collision_matrix := cm \<rparr>;
                  v_sphere_i = Vec3 (rd vx i) (rd vy i) (rd vz i);
                  v_sphere_j = Vec3 (rd vx j) (rd vy j) (rd vz j);
                  u = vsub v_sphere_j v_sphere_i
              in if cmatrix_get cm N i j (- 1) = Some 0
                 then addImpulse th1 i j ri rj u ni (Fin (1/2)) (Fin (3/10))
                 else
                   (let fixed_i = (case rdi (world_fixed w) i of None \<Rightarrow> False | Some v \<Rightarrow> v \<noteq> 0);
                        fixed_j = (case rdi (world_fixed w) j of None \<Rightarrow> False | Some v \<Rightarrow> v \<noteq> 0);
                        iM_i = (if \<not> fixed_i then rd (world_invm w) i else Fin 0);
                        iI_i = (if \<not> fixed_i then Fin 1 / rd (world_inertiax w) i else Fin 0);
                        iM_j = (if \<not> fixed_j then rd (world_invm w) j else Fin 0);
                        iI_j = (if \<not> fixed_j then Fin 1 / rd (world_inertiax w) j else Fin 0)
                    in Inr (th1 \<lparr> world_solver := fst (addConstraint (world_solver th1)
                         [- vec_x ni, - vec_y ni, - vec_z ni, Fin 0, Fin 0, Fin 0,
                          vec_x ni, vec_y ni, vec_z ni, Fin 0, Fin 0, Fin 0]
                         [iM_i, iM_i, iM_i, iI_i, iI_i, iI_i, iM_j, iM_j, iM_j, iI_j, iI_j, iI_j]
                         [- vec_x q_vec, - vec_y q_vec, - vec_z q_vec, Fin 0, Fin 0, Fin 0,
                          vec_x q_vec, vec_y q_vec, vec_z q_vec, Fin 0, Fin 0, Fin 0]
                         [rd vx i, rd vy i, rd vz i, Fin 0, Fin 0, Fin 0,
                          rd vx j, rd vy j, rd vz j, Fin 0, Fin 0, Fin 0]
                         [rd (world_fx w) i, rd (world_fy w) i, rd (world_fz w) i,
                          rd (world_taux w) i, rd (world_tauy w) i, rd (world_tauz w) i,
                          rd (world_fx w) j, rd (world_fy w) j, rd (world_fz w) j,
                          rd (world_taux w) j, rd (world_tauy w) j, rd (world_tauz w) j]
                         (Fin 0) inf_string (int i) (int j)) \<rparr>))))
           else Inr th))"

text \<open>
  \<open>new CANNON.Quaternion(x, y, z, w)\<close> on elements of typed arrays: an element outside
  the array is \<open>undefined\<close> and takes the constructor's default, 1 for \<open>x\<close> and 0 for the
  others.
\<close>

definition elem_or :: "jsnum list \<Rightarrow> nat \<Rightarrow> jsnum \<Rightarrow> jsnum" where
  "elem_or xs i d = (if i < length xs then xs ! i else d)"

definition array_quaternion ::
  "jsnum list \<Rightarrow> jsnum list \<Rightarrow> jsnum list \<Rightarrow> jsnum list \<Rightarrow> nat \<Rightarrow> quaternion" where
  "array_quaternion qx qy qz qw i =
     Quaternion (elem_or qx i (Fin 1)) (elem_or qy i (Fin 0))
                (elem_or qz i (Fin 0)) (elem_or qw i (Fin 0))"

definition box_corners :: "vec3 \<Rightarrow> vec3 list" where
  "box_corners ex =
     [Vec3 (vec_x ex) (vec_y ex) (vec_z ex),
      Vec3 (- vec_x ex) (vec_y ex) (vec_z ex),
      Vec3 (- vec_x ex) (- vec_y ex) (vec_z ex),
      Vec3 (- vec_x ex) (- vec_y ex) (- vec_z ex),
      Vec3 (vec_x ex) (- vec_y ex) (- vec_z ex),
      Vec3 (vec_x ex) (vec_y ex) (- vec_z ex),
      Vec3 (- vec_x ex) (vec_y ex) (- vec_z ex),
      Vec3 (vec_x ex) (- vec_y ex) (vec_z ex)]"

text \<open>
  The body of the loop over the corners, for one corner: \<open>None\<close> when the corner does
  not penetrate, the solver with the corner's row added when it does.
\<close>

definition box_plane_corner ::
  "world \<Rightarrow> nat \<Rightarrow> nat \<Rightarrow> vec3 \<Rightarrow> vec3 \<Rightarrow> quaternion \<Rightarrow> vec3 \<Rightarrow> vec3 \<Rightarrow> solver
     \<Rightarrow> solver option" where
  "box_plane_corner w bi pi' n xi quat worldInertia corner s =
     (let x = world_x w; y = world_y w; z = world_z w;
          ri = quat_vmult quat corner;
          rixn = cross ri n;
          point_on_plane_to_corner =
            Vec3 (vec_x xi + vec_x ri * Fin (1/2) - rd x pi')
                 (vec_y xi + vec_y ri * Fin (1/2) - rd y pi')
                 (vec_z xi + vec_z ri * Fin (1/2) - rd z pi');
          plane_to_corner = mult3 n (dot n point_on_plane_to_corner);
          xj = vsub xi plane_to_corner;
          qvec0 = Vec3 (vec_x xj - rd x bi - vec_x ri * Fin (1/2))
                       (vec_y xj - rd y bi - vec_y ri * Fin (1/2))
                       (vec_z xj - rd z bi - vec_z ri * Fin (1/2));
          q = dot qvec0 n;
          qvec = mult3 n q
      in if q < Fin 0
         then
           (let v_box = Vec3 (rd (world_vx w) bi) (rd (world_vy w) bi) (rd (world_vz w) bi);
                w_box = Vec3 (rd (world_wx w) bi) (rd (world_wy w) bi) (rd (world_wz w) bi);
                iM = rd (world_invm w) bi
            in Some (fst (addConstraint s
                 [- vec_x n, - vec_y n, - vec_z n,
                  - vec_x rixn, - vec_y rixn, - vec_z rixn,
                  Fin 0, Fin 0, Fin 0, Fin 0, Fin 0, Fin 0]
                 [iM, iM, iM,
                  Fin 1 / vec_x worldInertia, Fin 1 / vec_y worldInertia,
                  Fin 1 / vec_z worldInertia,
                  Fin 0, Fin 0, Fin 0, Fin 0, Fin 0, Fin 0]
                 [- vec_x qvec, - vec_y qvec, - vec_z qvec, Fin 0, Fin 0, Fin 0,
                  Fin 0, Fin 0, Fin 0, Fin 0, Fin 0, Fin 0]
                 [vec_x v_box, vec_y v_box, vec_z v_box,
                  vec_x w_box, vec_y w_box, vec_z w_box,
                  Fin 0, Fin 0, Fin 0, Fin 0, Fin 0, Fin 0]
                 [rd (world_fx w) bi, rd (world_fy w) bi, rd (world_fz w) bi,
                  rd (world_taux w) bi, rd (world_tauy w) bi, rd (world_tauz w) bi,
                  rd (world_fx w) pi', rd (world_fy w) pi', rd (world_fz w) pi',
                  rd (world_taux w) pi', rd (world_tauy w) pi', rd (world_tauz w) pi']
                 (Fin 0) inf_string (int bi) (int pi'))))
         else None)"

text \<open>
  The loop over the corners, \<open>for(idx = 0; idx < corners.length && numcontacts <= 4; idx++)\<close>:
  the list holds the corners from \<open>idx\<close> on.  A corner that penetrates adds its row
  and increments \<open>numcontacts\<close>.
\<close>

fun box_plane_corners ::
  "(vec3 \<Rightarrow> solver \<Rightarrow> solver option) \<Rightarrow> vec3 list \<Rightarrow> nat \<Rightarrow> solver \<Rightarrow> solver" where
  "box_plane_corners contact [] numcontacts s = s"
| "box_plane_corners contact (corner # corners) numcontacts s =
     (if numcontacts \<le> 4
      then (case contact corner s of
              Some s' \<Rightarrow> box_plane_corners contact corners (numcontacts + 1) s'
            | None \<Rightarrow> box_plane_corners contact corners numcontacts s)
      else s)"

definition narrow_box_plane :: "world \<Rightarrow> world \<Rightarrow> nat \<Rightarrow> nat \<Rightarrow> error + world" where
  "narrow_box_plane th w bi pi' =
     (case shape_at w pi' of None \<Rightarrow> Inl TypeError | Some plane \<Rightarrow>
      case shape_normal plane of None \<Rightarrow> Inl TypeError | Some normal \<Rightarrow>
      case shape_at w bi of None \<Rightarrow> Inl TypeError | Some box \<Rightarrow>
      case shape_halfExtents box of None \<Rightarrow> Inl TypeError | Some ex \<Rightarrow>
       (let n = negate normal;
            xi = Vec3 (rd (world_x w) bi) (rd (world_y w) bi) (rd (world_z w) bi);
            quat = quat_normalize
                     (array_quaternion (world_qx w) (world_qy w) (world_qz w) (world_qw w) bi);
            localInertia = Vec3 (rd (world_inertiax w) bi) (rd (world_inertiay w) bi)
                                (rd (world_inertiaz w) bi);
            wI = quat_vmult quat localInertia;
            worldInertia = V3 (js_abs (vec_x wI)) (js_abs (vec_y wI)) (js_abs (vec_z wI))
        in Inr (th \<lparr> world_solver :=
                  box_plane_corners (box_plane_corner w bi pi' n xi quat worldInertia)
                    (box_corners ex) 0 (world_solver th) \<rparr>)))"

text \<open>The dispatch on the types of the two bodies of a pair.  A type read outside the
  array is \<open>undefined\<close> and equals no shape type.\<close>

definition narrowphase_pair :: "world \<Rightarrow> world \<Rightarrow> nat \<Rightarrow> nat \<Rightarrow> error + world" where
  "narrowphase_pair th w i j =
     (let ti = rdi (world_type w) i; tj = rdi (world_type w) j
      in if (ti = Some SPHERE \<and> tj = Some PLANE) \<or> (ti = Some PLANE \<and> tj = Some SPHERE)
         then (if ti = Some SPHERE then narrow_sphere_plane th w i j
               else narrow_sphere_plane th w j i)
         else if ti = Some SPHERE \<and> tj = Some SPHERE
         then narrow_sphere_sphere th w i j
         else if (ti = Some BOX \<and> tj = Some PLANE) \<or> (ti = Some PLANE \<and> tj = Some BOX)
         then (if ti = Some BOX then narrow_box_plane th w i j
               else narrow_box_plane th w j i)
         else Inr th)"

text \<open>
  The loop over the pairs \<open>(p1[k], p2[k])\<close>, \<open>k < p1.length\<close>.  Where \<open>p2\<close> is
  shorter than \<open>p1\<close> the second index is \<open>undefined\<close>, no type is read for it and no
  branch is taken.  A raise ends the loop and the step.  The argument \<open>g\<close> is what the
  variable \<open>world\<close> names; the world is the one that steps, before and after the loop.
\<close>

fun narrowphase :: "global_world \<Rightarrow> nat list \<Rightarrow> nat list \<Rightarrow> world \<Rightarrow> error + world" where
  "narrowphase g [] p2 th = Inr th"
| "narrowphase g (i # p1) [] th = narrowphase g p1 [] th"
| "narrowphase g (i # p1) (j # p2) th =
     (case narrowphase_pair th (world_of g th) i j of
        Inl err \<Rightarrow> Inl err
      | Inr th' \<Rightarrow> narrowphase g p1 p2 th')"

section \<open>Broadphase\<close>

text \<open>
  \<open>collisionPairs\<close> of the base class raises.  The naive broadphase visits the pairs
  \<open>(i, j)\<close>, \<open>j < i\<close>, in the order of its two loops and appends the indices of a pair
  that passes the test for the two shapes to its two arrays.
\<close>

definition Broadphase_collisionPairs :: "world \<Rightarrow> error + nat list \<times> nat list" where
  "Broadphase_collisionPairs w = Inl NotImplemented"

definition naive_test :: "world \<Rightarrow> nat \<Rightarrow> nat \<Rightarrow> error + bool" where
  "naive_test w i j =
     (let x = world_x w; y = world_y w; z = world_z w;
          ti = rdi (world_type w) i; tj = rdi (world_type w) j
      in if ti = Some SPHERE \<and> tj = Some SPHERE
         then
           (case shape_at w i of None \<Rightarrow> Inl TypeError | Some sphere_i \<Rightarrow>
            case shape_at w j of None \<Rightarrow> Inl TypeError | Some sphere_j \<Rightarrow>
              (let r2 = shape_radius sphere_i + shape_radius sphere_j
               in Inr (js_abs (rd x i - rd x j) < r2 \<and> js_abs (rd y i - rd y j) < r2
                       \<and> js_abs (rd z i - rd z j) < r2)))
         else if (ti = Some SPHERE \<and> tj = Some PLANE) \<or> (ti = Some PLANE \<and> tj = Some SPHERE)
         then
           (let si = (if ti = Some SPHERE then i else j);
                pi' = (if ti = Some PLANE then i else j);
                r = Vec3 (rd x si - rd x pi') (rd y si - rd y pi') (rd z si - rd z pi')
            in case shape_at w pi' of None \<Rightarrow> Inl TypeError | Some plane \<Rightarrow>
               case shape_normal plane of None \<Rightarrow> Inl TypeError | Some normal \<Rightarrow>
               case shape_at w si of None \<Rightarrow> Inl TypeError | Some sphere \<Rightarrow>
                 Inr (dot r normal - shape_radius sphere < Fin 0))
         else if (ti = Some BOX \<and> tj = Some PLANE) \<or> (ti = Some PLANE \<and> tj = Some BOX)
         then
           (let bi = (if ti = Some BOX then i else j);
                pi' = (if ti = Some PLANE then i else j);
                r = Vec3 (rd x bi - rd x pi') (rd y bi - rd y pi') (rd z bi - rd z pi')
            in case shape_at w pi' of None \<Rightarrow> Inl TypeError | Some plane \<Rightarrow>
               case shape_normal plane of None \<Rightarrow> Inl TypeError | Some normal \<Rightarrow>
               case shape_at w bi of None \<Rightarrow> Inl TypeError | Some box \<Rightarrow>
               case shape_halfExtents box of None \<Rightarrow> Inl TypeError | Some ex \<Rightarrow>
                 Inr (dot r normal - norm3 ex < Fin 0))
         else Inr False)"

fun naive_loop ::
  "world \<Rightarrow> (nat \<times> nat) list \<Rightarrow> nat list \<Rightarrow> nat list \<Rightarrow> error + nat list \<times> nat list" where
  "naive_loop w [] pairs1 pairs2 = Inr (pairs1, pairs2)"
| "naive_loop w (p # ps) pairs1 pairs2 =
     (case naive_test w (fst p) (snd p) of
        Inl err \<Rightarrow> Inl err
      | Inr hit \<Rightarrow>
          if hit then naive_loop w ps (pairs1 @ [fst p]) (pairs2 @ [snd p])
          else naive_loop w ps pairs1 pairs2)"

definition NaiveBroadphase_collisionPairs :: "world \<Rightarrow> error + nat list \<times> nat list" where
  "NaiveBroadphase_collisionPairs w = naive_loop w (lower_pairs (numObjects w)) [] []"

section \<open>The step\<close>

text \<open>\<open>for(var i = 0; i < n; i++) body\<close> on a state.\<close>

fun for_loop :: "nat list \<Rightarrow> (nat \<Rightarrow> 'a \<Rightarrow> 'a) \<Rightarrow> 'a \<Rightarrow> 'a" where
  "for_loop [] body s = s"
| "for_loop (i # is) body s = for_loop is body (body i s)"

definition for_each :: "nat \<Rightarrow> (nat \<Rightarrow> 'a \<Rightarrow> 'a) \<Rightarrow> 'a \<Rightarrow> 'a" where
  "for_each n body s = for_loop [0..<n] body s"

text \<open>A component of \<open>world.gravity\<close>: \<open>undefined\<close>, NaN as a number, until a vector
  has been stored.\<close>

definition gravity_x :: "world \<Rightarrow> jsnum" where
  "gravity_x w = (case world_gravity w of None \<Rightarrow> NaN | Some g \<Rightarrow> vec_x g)"

definition gravity_y :: "world \<Rightarrow> jsnum" where
  "gravity_y w = (case world_gravity w of None \<Rightarrow> NaN | Some g \<Rightarrow> vec_y g)"

definition gravity_z :: "world \<Rightarrow> jsnum" where
  "gravity_z w = (case world_gravity w of None \<Rightarrow> NaN | Some g \<Rightarrow> vec_z g)"

text \<open>\<open>fx[i] += world.gravity.x * world.mass[i]\<close> and its two siblings: the product
  and the sum are rounded to a double, and the store into the Float32Array rounds the sum
  to a 32-bit float.\<close>

definition add_gravity :: "nat \<Rightarrow> world \<Rightarrow> world" where
  "add_gravity i w =
     w \<lparr> world_fx := (world_fx w)[i := to_float32 (to_double (rd (world_fx w) i
                          + to_double (gravity_x w * rd (world_mass w) i)))],
         world_fy := (world_fy w)[i := to_float32 (to_double (rd (world_fy w) i
                          + to_double (gravity_y w * rd (world_mass w) i)))],
         world_fz := (world_fz w)[i := to_float32 (to_double (rd (world_fz w) i
                          + to_double (gravity_z w * rd (world_mass w) i)))] \<rparr>"

text \<open>\<open>!world.fixed[i]\<close>: true for 0 and for an element outside the array.\<close>

definition not_fixed :: "world \<Rightarrow> nat \<Rightarrow> bool" where
  "not_fixed w i = (case rdi (world_fixed w) i of None \<Rightarrow> True | Some v \<Rightarrow> v = 0)"

text \<open>\<open>vx[i] += this.solver.vxlambda[i]\<close> and its five siblings, for one body.\<close>

definition apply_lambda :: "solve_state \<Rightarrow> nat \<Rightarrow> world \<Rightarrow> world" where
  "apply_lambda st i w =
     w \<lparr> world_vx := (world_vx w)[i := rd (world_vx w) i + rd (st_vxlambda st) i],
         world_vy := (world_vy w)[i := rd (world_vy w) i + rd (st_vylambda st) i],
         world_vz := (world_vz w)[i := rd (world_vz w) i + rd (st_vzlambda st) i],
         world_wx := (world_wx w)[i := rd (world_wx w) i + rd (st_wxlambda st) i],
         world_wy := (world_wy w)[i := rd (world_wy w) i + rd (st_wylambda st) i],
         world_wz := (world_wz w)[i := rd (world_wz w) i + rd (st_wzlambda st) i] \<rparr>"

text \<open>
  \<open>if(this.solver.n){ this.solver.solve(); ... }\<close>: the solve, and the loop over the
  bodies of \<open>world\<close> that adds the velocity changes to its arrays.  That loop raises a
  TypeError when the solver's arrays are \<open>undefined\<close>.
\<close>

definition solve_constraints :: "world \<times> global_world \<Rightarrow> error + world \<times> global_world" where
  "solve_constraints s =
     (if solver_n (world_solver (fst s)) \<noteq> 0
      then (case solve (world_solver (fst s)) of
              Inl err \<Rightarrow> Inl err
            | Inr sol \<Rightarrow>
                (case lambda_arrays sol of
                   None \<Rightarrow> Inl TypeError
                 | Some st \<Rightarrow>
                     Inr (on_world (\<lambda>w. for_each (numObjects w) (apply_lambda st) w)
                            (on_this (\<lambda>th. th \<lparr> world_solver := sol \<rparr>) s))))
      else Inr s)"

text \<open>
  The leap frog step of one body, in the order of the source: the velocities from the
  force and the torque, the position from the new velocity, the orientation from the new
  angular velocity, normalized.  Nothing is done for a fixed body.  In
  \<open>vx[i] += fx[i] * world.invm[i] * dt\<close> each product and the sum are rounded to a
  double, and the store into the Float32Array \<open>vx\<close> rounds the sum to a 32-bit float;
  likewise for the angular velocity and for \<open>x[i] += vx[i] * dt\<close>.  The rounding in the
  update of the orientation is not written out.
\<close>

definition integrate_velocity :: "jsnum \<Rightarrow> nat \<Rightarrow> world \<Rightarrow> world" where
  "integrate_velocity dt i w =
     w \<lparr> world_vx := (world_vx w)[i := to_float32 (to_double (rd (world_vx w) i
                          + to_double (to_double (rd (world_fx w) i * rd (world_invm w) i) * dt)))],
         world_vy := (world_vy w)[i := to_float32 (to_double (rd (world_vy w) i
                          + to_double (to_double (rd (world_fy w) i * rd (world_invm w) i) * dt)))],
         world_vz := (world_vz w)[i := to_float32 (to_double (rd (world_vz w) i
                          + to_double (to_double (rd (world_fz w) i * rd (world_invm w) i) * dt)))],
         world_wx := (world_wx w)[i := to_float32 (to_double (rd (world_wx w) i
                          + to_double (to_double (to_double (rd (world_taux w) i * Fin 1)
                                                  / rd (world_inertiax w) i) * dt)))],
         world_wy := (world_wy w)[i := to_float32 (to_double (rd (world_wy w) i
                          + to_double (to_double (to_double (rd (world_tauy w) i * Fin 1)
                                                  / rd (world_inertiay w) i) * dt)))],
         world_wz := (world_wz w)[i := to_float32 (to_double (rd (world_wz w) i
                          + to_double (to_double (to_double (rd (world_tauz w) i * Fin 1)
                                                  / rd (world_inertiaz w) i) * dt)))] \<rparr>"

definition integrate_position :: "jsnum \<Rightarrow> nat \<Rightarrow> world \<Rightarrow> world" where
  "integrate_position dt i w =
     w \<lparr> world_x := (world_x w)[i := to_float32 (to_double (rd (world_x w) i
                        + to_double (rd (world_vx w) i * dt)))],
         world_y := (world_y w)[i := to_float32 (to_double (rd (world_y w) i
                        + to_double (rd (world_vy w) i * dt)))],
         world_z := (world_z w)[i := to_float32 (to_double (rd (world_z w) i
                        + to_double (rd (world_vz w) i * dt)))] \<rparr>"

definition integrate_orientation :: "jsnum \<Rightarrow> nat \<Rightarrow> world \<Rightarrow> world" where
  "integrate_orientation dt i w =
     (let q = array_quaternion (world_qx w) (world_qy w) (world_qz w) (world_qw w) i;
          w' = Quaternion (elem_or (world_wx w) i (Fin 1)) (elem_or (world_wy w) i (Fin 0))
                          (elem_or (world_wz w) i (Fin 0)) (Fin 0);
          wq = quat_mult w' q;
          qx1 = (world_qx w)[i := rd (world_qx w) i + dt * Fin (1/2) * quat_x wq];
          qy1 = (world_qy w)[i := rd (world_qy w) i + dt * Fin (1/2) * quat_y wq];
          qz1 = (world_qz w)[i := rd (world_qz w) i + dt * Fin (1/2) * quat_z wq];
          qw1 = (world_qw w)[i := rd (world_qw w) i + dt * Fin (1/2) * quat_w wq];
          q' = quat_normalize (Quaternion (rd qx1 i) (rd qy1 i) (rd qz1 i) (rd qw1 i))
      in w \<lparr> world_qx := qx1[i := quat_x q'], world_qy := qy1[i := quat_y q'],
              world_qz := qz1[i := quat_z q'], world_qw := qw1[i := quat_w q'] \<rparr>)"

definition leapfrog :: "jsnum \<Rightarrow> nat \<Rightarrow> world \<Rightarrow> world" where
  "leapfrog dt i w =
     (if not_fixed w i
      then integrate_orientation dt i (integrate_position dt i (integrate_velocity dt i w))
      else w)"

definition reset_forces :: "nat \<Rightarrow> world \<Rightarrow> world" where
  "reset_forces i w =
     w \<lparr> world_fx := (world_fx w)[i := Fin 0],
         world_fy := (world_fy w)[i := Fin 0],
         world_fz := (world_fz w)[i := Fin 0],
         world_taux := (world_taux w)[i := Fin 0],
         world_tauy := (world_tauy w)[i := Fin 0],
         world_tauz := (world_tauz w)[i := Fin 0] \<rparr>"

text \<open>
  \<open>step(dt)\<close>.  The broadphase is an argument: it returns the two arrays of indices, or
  raises.  The argument \<open>global\<close> is what the global variable \<open>world\<close> names when
  \<open>step\<close> runs, \<open>None\<close> if no such variable exists; the first read of the variable,
  after the broadphase has returned, then raises a ReferenceError.  In a world that
  never had a body the arrays are \<open>undefined\<close> and \<open>world.x.length\<close> raises a
  TypeError.  The scratch arrays that \<open>step\<close> allocates and never reads are left out.
  The rotation of the contact history runs over the bodies of the world that steps, and
  every other loop over the bodies of the world that the variable names.  A raise
  returns the error only; otherwise \<open>step\<close> returns the world that steps and what the
  variable names, after the step.
\<close>

definition step_worlds ::
  "nat list \<times> nat list \<Rightarrow> jsnum \<Rightarrow> world \<times> global_world \<Rightarrow> error + world \<times> global_world" where
  "step_worlds pairs dt s =
     (if numObjects (world_of (snd s) (fst s)) = 0 then Inl TypeError
      else
        (let s1 = on_this (\<lambda>th. th \<lparr> world_collision_matrix :=
                              rotate_history (numObjects th) (world_collision_matrix th) \<rparr>) s;
             s2 = on_world (\<lambda>w. for_each (numObjects w) add_gravity w) s1;
             s3 = on_this (\<lambda>th. th \<lparr> world_solver :=
                              reset (numObjects (world_of (snd s2) (fst s2))) (world_solver th) \<rparr>) s2
         in case narrowphase (snd s3) (fst pairs) (snd pairs) (fst s3) of
              Inl err \<Rightarrow> Inl err
            | Inr th4 \<Rightarrow>
                (case solve_constraints (th4, snd s3) of
                   Inl err \<Rightarrow> Inl err
                 | Inr s5 \<Rightarrow>
                     (let s6 = on_world (\<lambda>w. for_each (numObjects w) (leapfrog dt) w) s5;
                          s7 = on_world (\<lambda>w. for_each (numObjects w) reset_forces w) s6
                      in Inr (on_world (\<lambda>w. w \<lparr> world_time := world_time w + dt,
                                                world_stepnumber := world_stepnumber w + 1 \<rparr>)
                                s7)))))"

definition step ::
  "(world \<Rightarrow> error + nat list \<times> nat list) \<Rightarrow> jsnum \<Rightarrow> global_world option \<Rightarrow> world
     \<Rightarrow> error + world \<times> global_world option" where
  "step broadphase dt global th =
     (if world_paused th then Inr (th, global)
      else case broadphase th of
        Inl err \<Rightarrow> Inl err
      | Inr pairs \<Rightarrow>
          (case global of
             None \<Rightarrow> Inl ReferenceError
           | Some g \<Rightarrow>
               (case step_worlds pairs dt (th, g) of
                  Inl err \<Rightarrow> Inl err
                | Inr s \<Rightarrow> Inr (fst s, Some (snd s)))))"

section \<open>Well-formed worlds and finite numbers\<close>

text \<open>
  Every array of a world built by \<open>add\<close> has one element for each body.  A number is
  finite when it is neither NaN nor an infinity.
\<close>

definition arrays_sized :: "world \<Rightarrow> bool" where
  "arrays_sized w =
     (length (world_y w) = numObjects w \<and> length (world_z w) = numObjects w
      \<and> length (world_vx w) = numObjects w \<and> length (world_vy w) = numObjects w
      \<and> length (world_vz w) = numObjects w
      \<and> length (world_fx w) = numObjects w \<and> length (world_fy w) = numObjects w
      \<and> length (world_fz w) = numObjects w
      \<and> length (world_taux w) = numObjects w \<and> length (world_tauy w) = numObjects w
      \<and> length (world_tauz w) = numObjects w
      \<and> length (world_wx w) = numObjects w \<and> length (world_wy w) = numObjects w
      \<and> length (world_wz w) = numObjects w
      \<and> length (world_qx w) = numObjects w \<and> length (world_qy w) = numObjects w
      \<and> length (world_qz w) = numObjects w \<and> length (world_qw w) = numObjects w
      \<and> length (world_type w) = numObjects w \<and> length (world_body w) = numObjects w
      \<and> length (world_fixed w) = numObjects w \<and> length (world_mass w) = numObjects w
      \<and> length (world_inertiax w) = numObjects w \<and> length (world_inertiay w) = numObjects w
      \<and> length (world_inertiaz w) = numObjects w \<and> length (world_invm w) = numObjects w)"

fun is_fin :: "jsnum \<Rightarrow> bool" where
  "is_fin (Fin a) = True"
| "is_fin a = False"

text \<open>What the step needs of a body that is not fixed, to leave its linear velocity as
  it is when no force acts: a finite mass, which gravity multiplies, and a finite inverse
  mass, which the leap frog step multiplies the force with.\<close>

definition finite_mass :: "world \<Rightarrow> nat \<Rightarrow> bool" where
  "finite_mass w i = (is_fin (world_mass w ! i) \<and> is_fin (world_invm w ! i))"

text \<open>What it needs to leave the angular velocity as it is when no torque acts: three
  components of the inertia, which the leap frog step divides the torque by, that are
  finite and not 0.\<close>

definition finite_inertia :: "world \<Rightarrow> nat \<Rightarrow> bool" where
  "finite_inertia w i =
     (is_fin (world_inertiax w ! i) \<and> world_inertiax w ! i \<noteq> Fin 0
      \<and> is_fin (world_inertiay w ! i) \<and> world_inertiay w ! i \<noteq> Fin 0
      \<and> is_fin (world_inertiaz w ! i) \<and> world_inertiaz w ! i \<noteq> Fin 0)"

text \<open>The force on body \<open>i\<close> is zero, and the torque on body \<open>i\<close> is zero.\<close>

definition no_force :: "world \<Rightarrow> nat \<Rightarrow> bool" where
  "no_force w i =
     (world_fx w ! i = Fin 0 \<and> world_fy w ! i = Fin 0 \<and> world_fz w ! i = Fin 0)"

definition no_torque :: "world \<Rightarrow> nat \<Rightarrow> bool" where
  "no_torque w i =
     (world_taux w ! i = Fin 0 \<and> world_tauy w ! i = Fin 0 \<and> world_tauz w ! i = Fin 0)"

text \<open>The linear velocity of body \<open>i\<close>, and its angular velocity, are numbers that a
  Float32Array holds.\<close>

definition float32_velocity :: "world \<Rightarrow> nat \<Rightarrow> bool" where
  "float32_velocity w i =
     (float32_value (world_vx w ! i) \<and> float32_value (world_vy w ! i)
      \<and> float32_value (world_vz w ! i))"

definition float32_rotation :: "world \<Rightarrow> nat \<Rightarrow> bool" where
  "float32_rotation w i =
     (float32_value (world_wx w ! i) \<and> float32_value (world_wy w ! i)
      \<and> float32_value (world_wz w ! i))"


section \<open>Views of a world\<close>

text \<open>
  The linear motion of body \<open>i\<close>, its linear velocity and its position, and its angular
  velocity.
\<close>

definition linear_motion ::
  "world \<Rightarrow> nat \<Rightarrow> (jsnum \<times> jsnum \<times> jsnum) \<times> (jsnum \<times> jsnum \<times> jsnum)" where
  "linear_motion w i =
     ((world_vx w ! i, world_vy w ! i, world_vz w ! i),
      (world_x w ! i, world_y w ! i, world_z w ! i))"

definition angular_velocity :: "world \<Rightarrow> nat \<Rightarrow> jsnum \<times> jsnum \<times> jsnum" where
  "angular_velocity w i = (world_wx w ! i, world_wy w ! i, world_wz w ! i)"

text \<open>An element of a Float32Array after \<open>a[i] += 0\<close>: the sum is rounded and stored.\<close>

definition restore :: "jsnum \<Rightarrow> jsnum" where
  "restore a = to_float32 (to_double a)"

text \<open>The linear motion after the leap frog step of a body on which no force acts, and
  the angular velocity after the leap frog step of a body on which no torque acts.\<close>

definition advance ::
  "jsnum \<Rightarrow> (jsnum \<times> jsnum \<times> jsnum) \<times> (jsnum \<times> jsnum \<times> jsnum)
     \<Rightarrow> (jsnum \<times> jsnum \<times> jsnum) \<times> (jsnum \<times> jsnum \<times> jsnum)" where
  "advance dt m =
     (case m of ((vx, vy, vz), (x, y, z)) \<Rightarrow>
        ((restore vx, restore vy, restore vz),
         (to_float32 (to_double (x + to_double (restore vx * dt))),
          to_float32 (to_double (y + to_double (restore vy * dt))),
          to_float32 (to_double (z + to_double (restore vz * dt))))))"

definition settle :: "jsnum \<times> jsnum \<times> jsnum \<Rightarrow> jsnum \<times> jsnum \<times> jsnum" where
  "settle om = (case om of (wx, wy, wz) \<Rightarrow> (restore wx, restore wy, restore wz))"

text \<open>What the loops of the step over the bodies leave as it is, for body \<open>i\<close>.\<close>

definition setting :: "world \<Rightarrow> nat \<Rightarrow> bool \<times> bool \<times> bool \<times> bool \<times> nat" where
  "setting w i =
     (arrays_sized w, finite_mass w i, finite_inertia w i, not_fixed w i, numObjects w)"


section \<open>Example worlds\<close>

text \<open>
  Four worlds of one body each, with gravity set to the zero vector: a sphere of mass 1
  and radius 1 with the velocity \<open>(1, 2, 3)\<close>; a fixed sphere (mass 0) that was given
  the velocity \<open>(1, 0, 0)\<close>; a plane of mass 1, whose inertia is zero; and a sphere of
  mass 1 at \<open>x = 16777216\<close>, which is \<open>2 ^ 24\<close>, with the velocity \<open>(1, 0, 0)\<close>.
\<close>

definition moving_sphere_world :: world where
  "moving_sphere_world =
     set_gravity (V3 (Fin 0) (Fin 0) (Fin 0))
       (fst (add (snd (setVelocity World (RigidBody (Fin 1) (Sphere (Fin 1)))
                         (Fin 1) (Fin 2) (Fin 3)))
                 World))"

definition fixed_sphere_world :: world where
  "fixed_sphere_world =
     set_gravity (V3 (Fin 0) (Fin 0) (Fin 0))
       (fst (add (snd (setVelocity World (RigidBody (Fin 0) (Sphere (Fin 1)))
                         (Fin 1) (Fin 0) (Fin 0)))
                 World))"

definition movable_plane_world :: world where
  "movable_plane_world =
     set_gravity (V3 (Fin 0) (Fin 0) (Fin 0))
       (fst (add (RigidBody (Fin 1) (Plane (V3 (Fin 0) (Fin 1) (Fin 0)))) World))"

definition far_sphere_world :: world where
  "far_sphere_world =
     set_gravity (V3 (Fin 0) (Fin 0) (Fin 0))
       (fst (add (snd (setVelocity World
                         (snd (setPosition World (RigidBody (Fin 1) (Sphere (Fin 1)))
                                 (Fin 16777216) (Fin 0) (Fin 0)))
                         (Fin 1) (Fin 0) (Fin 0)))
                 World))"

section \<open>Properties\<close>




text \<open>
  C9.  \<open>getTorque\<close> on a body that is in no world raises a TypeError, for a body fresh
  from the constructor and for one whose torque \<open>setTorque\<close> has stored: the claim's
  "returns the torque and never raises" fails there.
\<close>

theorem getTorque_detached_raises:
  "getTorque World (RigidBody (Fin 1) (Sphere (Fin 1))) = Inl TypeError
   \<and> body_tau (snd (setTorque World (RigidBody (Fin 1) (Sphere (Fin 1)))
                        (Fin 1) (Fin 2) (Fin 3))) = V3 (Fin 1) (Fin 2) (Fin 3)
   \<and> getTorque World (snd (setTorque World (RigidBody (Fin 1) (Sphere (Fin 1)))
                                (Fin 1) (Fin 2) (Fin 3))) = Inl TypeError"
  by (simp add: getTorque_def RigidBody_def setTorque_def)

text \<open>
  C8.  A sphere with position \<open>(1, 2, 3)\<close> and velocity \<open>(4, 5, 6)\<close> is added to an
  empty world.  The world's velocity arrays hold \<open>(4, 5, 6)\<close> at the body's index 0,
  and \<open>getVelocity\<close> returns the position \<open>(1, 2, 3)\<close>: the claim's "returns the
  velocity stored in vx, vy, vz" fails there.
\<close>

theorem getVelocity_attached_returns_position:
  "(let b0 = RigidBody (Fin 1) (Sphere (Fin 1));
        b1 = snd (setPosition World b0 (Fin 1) (Fin 2) (Fin 3));
        b2 = snd (setVelocity World b1 (Fin 4) (Fin 5) (Fin 6));
        w = fst (add b2 World);
        b = snd (add b2 World)
    in body_id b = 0
       \<and> (world_vx w, world_vy w, world_vz w) = ([Fin 4], [Fin 5], [Fin 6])
       \<and> getVelocity w b = V3 (Fin 1) (Fin 2) (Fin 3))"
  by (simp add: Let_def RigidBody_def setPosition_def setVelocity_def add_def World_def
      getVelocity_def numObjects_def grow_def rda_def rd_def)

text \<open>
  C6.  A sphere of mass 1 is added to an empty world: \<open>mass[0] = 1\<close>, \<open>invm[0] = 1\<close>,
  \<open>fixed[0] = 0\<close>.  The mass setter then sets the mass to 0: \<open>mass[0] = 0\<close>, but
  \<open>invm[0]\<close> is \<open>1/0\<close>, infinite and not 0, and \<open>fixed[0]\<close> is still 0.  The claim's
  invariant fails after the mass setter.
\<close>

theorem mass_setter_breaks_invariant:
  "(let b0 = RigidBody (Fin 1) (Sphere (Fin 1));
        w1 = fst (add b0 World);
        b1 = snd (add b0 World);
        w2 = fst (mass_set w1 b1 (Fin 0))
    in (world_mass w1, world_invm w1, world_fixed w1) = ([Fin 1], [Fin 1], [0])
     \<and> (world_mass w2, world_invm w2, world_fixed w2) = ([Fin 0], [PInf], [0]))"
  by (simp add: Let_def RigidBody_def add_def World_def mass_set_def wra_def
      numObjects_def grow_def growi_def signed_inf_def)

subsection \<open>The contact history matrix\<close>

lemma cell_inj:
  fixes a b a' b' n :: nat
  assumes "a < n" "a' < n" "a + b * n = a' + b' * n"
  shows "a = a' \<and> b = b'"
proof -
  have "a = (a + b * n) mod n" using assms(1) by simp
  also have "\<dots> = (a' + b' * n) mod n" by (simp only: assms(3))
  also have "\<dots> = a'" using assms(2) by simp
  finally have a: "a = a'" .
  have "b = (a + b * n) div n" using assms(1) by simp
  also have "\<dots> = (a' + b' * n) div n" by (simp only: assms(3))
  also have "\<dots> = b'" using assms(2) by simp
  finally have "b = b'" .
  with a show ?thesis by simp
qed

lemma cell_in_range:
  fixes a b n :: nat
  assumes "a < n" "b < n"
  shows "a + b * n < n * n"
proof -
  have "a + b * n < n + b * n" using assms by simp
  also have "\<dots> = (Suc b) * n" by simp
  also have "\<dots> \<le> n * n" using assms by (metis Suc_leI mult.commute mult_le_mono2)
  finally show ?thesis .
qed

lemma length_rotate_pair: "length (rotate_pair n cm p) = length cm"
  by (cases p) (simp add: rotate_pair_def cmatrix_set_def Let_def split: option.splits)

lemma rotate_pair_self:
  assumes "i < j" "j < n" "length cm = n * n"
  shows "rotate_pair n cm (j, i) ! (i + j * n) = cm ! (j + i * n)
       \<and> rotate_pair n cm (j, i) ! (j + i * n) = 0"
proof -
  have r1: "j + i * n < n * n" using assms by (simp add: cell_in_range)
  have r2: "i + j * n < n * n" using assms by (simp add: cell_in_range)
  have ne: "i + j * n \<noteq> j + i * n"
    using cell_inj[of i n j j i] assms by auto
  show ?thesis
    using assms r1 r2 ne
    by (simp add: rotate_pair_def cmatrix_get_def cmatrix_set_def cmatrix_index_def rdi_def Let_def)
qed

lemma rotate_pair_other:
  assumes "b < a" "a < n" "i < j" "j < n" "(a, b) \<noteq> (j, i)"
  shows "rotate_pair n cm (a, b) ! (i + j * n) = cm ! (i + j * n)
       \<and> rotate_pair n cm (a, b) ! (j + i * n) = cm ! (j + i * n)"
proof -
  have n1: "b + a * n \<noteq> i + j * n" using cell_inj[of b n i a j] assms by auto
  have n2: "a + b * n \<noteq> i + j * n" using cell_inj[of a n i b j] assms by auto
  have n3: "b + a * n \<noteq> j + i * n" using cell_inj[of b n j a i] assms by auto
  have n4: "a + b * n \<noteq> j + i * n" using cell_inj[of a n j b i] assms by auto
  show ?thesis
    using assms n1 n2 n3 n4
    by (simp add: rotate_pair_def cmatrix_get_def cmatrix_set_def cmatrix_index_def rdi_def Let_def
        split: option.splits)
qed

lemma rotate_fold:
  assumes "i < j" "j < n"
  shows "distinct ps \<Longrightarrow> (\<forall>p \<in> set ps. snd p < fst p \<and> fst p < n) \<Longrightarrow> length cm = n * n \<Longrightarrow>
    foldl (rotate_pair n) cm ps ! (i + j * n)
      = (if (j, i) \<in> set ps then cm ! (j + i * n) else cm ! (i + j * n))
    \<and> foldl (rotate_pair n) cm ps ! (j + i * n)
      = (if (j, i) \<in> set ps then 0 else cm ! (j + i * n))"
proof (induction ps arbitrary: cm)
  case Nil
  then show ?case by simp
next
  case (Cons p ps)
  obtain a b where p: "p = (a, b)" by (cases p)
  have len: "length (rotate_pair n cm p) = n * n"
    using Cons.prems by (simp add: length_rotate_pair)
  have d: "distinct ps" and r: "\<forall>p \<in> set ps. snd p < fst p \<and> fst p < n"
    using Cons.prems by simp_all
  note IH = Cons.IH[OF d r len]
  show ?case
  proof (cases "p = (j, i)")
    case True
    then have nin: "(j, i) \<notin> set ps" using Cons.prems by simp
    show ?thesis
      using IH nin True rotate_pair_self[OF assms(1) assms(2), of cm] Cons.prems(3)
      by simp
  next
    case False
    have ab: "b < a" "a < n" using Cons.prems(2) p by simp_all
    show ?thesis
      using IH False p rotate_pair_other[OF ab assms(1) assms(2), of cm] 
      by auto
  qed
qed

lemma distinct_lower_pairs: "distinct (lower_pairs n)"
proof -
  have len_eq: "x = y" if "map (Pair x) [0..<x] = map (Pair y) [0..<y]" for x y :: nat
    using arg_cong[OF that, where f = length] by simp
  show ?thesis
    unfolding lower_pairs_def
    by (rule distinct_concat) (auto simp: distinct_map inj_on_def dest: len_eq)
qed

lemma set_lower_pairs: "set (lower_pairs n) = {(a, b). b < a \<and> a < n}"
  by (auto simp: lower_pairs_def)

lemma lower_pairs_2: "lower_pairs 2 = [(1, 0)]"
  by (simp add: lower_pairs_def numeral_2_eq_2 upt_rec)

text \<open>
  C3, as the code has it.  For a world of \<open>n\<close> bodies and a pair \<open>i < j < n\<close>:
  the current-step bit that the narrowphase writes with \<open>cmatrix(i, j, 0, 1)\<close> (in
  either order of the two indices) is stored at \<open>collision_matrix[j + i * n]\<close>; the
  previous-step bit that \<open>cmatrix(i, j, -1)\<close> reads is \<open>collision_matrix[i + j * n]\<close>;
  and the rotation at the start of \<open>step\<close> copies the current bit into the previous
  bit's cell \<open>i + j * n\<close> and zeroes the current bit's cell \<open>j + i * n\<close>.
\<close>

theorem history_cells:
  assumes "i < j" "j < n" "length cm = n * n"
  shows "cmatrix_set cm n i j 0 v = cm[j + i * n := v]
       \<and> cmatrix_set cm n j i 0 v = cm[j + i * n := v]
       \<and> cmatrix_get cm n i j (- 1) = Some (cm ! (i + j * n))
       \<and> cmatrix_get cm n j i (- 1) = Some (cm ! (i + j * n))
       \<and> rotate_history n cm ! (i + j * n) = cm ! (j + i * n)
       \<and> rotate_history n cm ! (j + i * n) = 0"
proof -
  have r2: "i + j * n < n * n" using assms by (simp add: cell_in_range)
  have a: "cmatrix_set cm n i j 0 v = cm[j + i * n := v]"
          "cmatrix_set cm n j i 0 v = cm[j + i * n := v]"
    using assms by (simp_all add: cmatrix_set_def cmatrix_index_def)
  have b: "cmatrix_get cm n i j (- 1) = Some (cm ! (i + j * n))"
          "cmatrix_get cm n j i (- 1) = Some (cm ! (i + j * n))"
    using assms r2 by (simp_all add: cmatrix_get_def cmatrix_index_def rdi_def)
  have "\<forall>p \<in> set (lower_pairs n). snd p < fst p \<and> fst p < n"
    by (auto simp: set_lower_pairs)
  from rotate_fold[OF assms(1) assms(2) distinct_lower_pairs this assms(3)]
  have c: "rotate_history n cm ! (i + j * n) = cm ! (j + i * n)"
          "rotate_history n cm ! (j + i * n) = 0"
    using assms by (simp_all add: rotate_history_def set_lower_pairs)
  from a b c show ?thesis by simp
qed

theorem history_cells_witness:
  "(0::nat) < 1 \<and> (1::nat) < 2 \<and> length [0, 1, 0, 0 :: int] = 2 * 2
   \<and> cmatrix_set [0, 0, 0, 0] 2 0 1 0 1 = [0, 1, 0, 0]
   \<and> rotate_history 2 [0, 1, 0, 0] ! 2 = 1
   \<and> rotate_history 2 [0, 1, 0, 0] ! 1 = 0"
  using history_cells[of 0 1 2 "[0, 1, 0, 0]" 1] history_cells[of 0 1 2 "[0, 0, 0, 0]" 1]
  by (simp add: numeral_2_eq_2)

text \<open>
  C3, as the claim states it, fails: in a world of 2 bodies the current bit of the pair
  \<open>(0, 1)\<close> is not written to \<open>collision_matrix[0 + 1 * 2]\<close>, and the rotation does not
  copy it to \<open>collision_matrix[1 + 0 * 2]\<close>.
\<close>

theorem claimed_cells_counterexample:
  "cmatrix_set [0, 0, 0, 0] 2 0 1 0 1 ! (0 + 1 * 2) \<noteq> 1
   \<and> rotate_history 2 [0, 1, 0, 0] ! (1 + 0 * 2) \<noteq> 1"
  by (simp add: lower_pairs_2 rotate_history_def rotate_pair_def cmatrix_set_def cmatrix_get_def
      cmatrix_index_def rdi_def)


subsection \<open>Rounding\<close>

text \<open>The rounding of a number whose exponent is known, and of a 32-bit float to a
  double.\<close>

lemma pow2_powr: "pow2 k = 2 powr (of_int k)"
  by (simp add: pow2_def powr_int power_int_def field_simps)

lemma floor_log2:
  assumes "pow2 k \<le> \<bar>r\<bar>" "\<bar>r\<bar> < pow2 (k + 1)"
  shows "\<lfloor>log 2 \<bar>r\<bar>\<rfloor> = k"
proof -
  have "0 < pow2 k" by (simp add: pow2_def)
  then have "0 < \<bar>r\<bar>" using assms(1) by linarith
  then show ?thesis
    using assms floor_log_eq_powr_iff[of "\<bar>r\<bar>" 2 k] by (simp add: pow2_powr)
qed

lemma binary_round_at:
  assumes "pow2 k \<le> \<bar>r\<bar>" "\<bar>r\<bar> < pow2 (k + 1)"
  shows "binary_round p emin emax r =
     (let ulp = pow2 (max k emin - int p + 1);
          v = of_int (round_even (r / ulp)) * ulp
      in if pow2 (emax + 1) \<le> \<bar>v\<bar> then signed_inf (r < 0) else Fin v)"
proof -
  have "0 < pow2 k" by (simp add: pow2_def)
  then have "r \<noteq> 0" using assms(1) by auto
  then show ?thesis using floor_log2[OF assms] by (simp add: binary_round_def Let_def)
qed

lemma to_double_zero: "to_double (Fin 0) = Fin 0"
  by (simp add: to_double_def binary_round_def)

lemma to_float32_zero: "to_float32 (Fin 0) = Fin 0"
  by (simp add: to_float32_def binary_round_def)

lemma pow2_pos: "0 < pow2 k"
  by (simp add: pow2_def)

lemma pow2_diff: "pow2 a / pow2 b = pow2 (a - b)"
  by (simp add: pow2_powr powr_diff)

lemma pow2_mono: "a \<le> b \<Longrightarrow> pow2 a \<le> pow2 b"
  by (simp add: pow2_powr)

lemma pow2_int: "0 \<le> k \<Longrightarrow> pow2 k = of_int (2 ^ nat k)"
  by (simp add: pow2_def)

lemma round_even_int: "round_even (of_int n) = n"
  by (simp add: round_even_def)

lemma floor_log2_ge:
  assumes "pow2 k \<le> \<bar>r\<bar>"
  shows "k \<le> \<lfloor>log 2 \<bar>r\<bar>\<rfloor>"
proof -
  have "0 < \<bar>r\<bar>" using assms pow2_pos[of k] by linarith
  have "log 2 (pow2 k) \<le> log 2 \<bar>r\<bar>"
    using assms pow2_pos[of k] by (simp add: log_le_cancel_iff)
  then have "of_int k \<le> log 2 \<bar>r\<bar>" by (simp add: pow2_powr)
  then show ?thesis by (simp add: le_floor_iff)
qed

lemma float32_is_double:
  assumes "to_float32 a = a"
  shows "to_double a = a"
proof (cases a)
  case (Fin v)
  show ?thesis
  proof (cases "v = 0")
    case True
    then show ?thesis using Fin by (simp add: to_double_def binary_round_def)
  next
    case False
    define l where "l = \<lfloor>log 2 \<bar>v\<bar>\<rfloor>"
    define e where "e = max l (- 126)"
    define u where "u = pow2 (e - 23)"
    define n where "n = round_even (v / u)"
    have r32: "binary_round 24 (- 126) 127 v = Fin v"
      using assms Fin by (simp add: to_float32_def)
    then have small: "\<not> pow2 128 \<le> \<bar>of_int n * u\<bar>" and v: "of_int n * u = v"
      using False
      by (auto simp: binary_round_def Let_def l_def e_def u_def n_def signed_inf_def
          split: if_splits)
    have upos: "0 < u" by (simp add: u_def pow2_pos)
    have "n \<noteq> 0" using v False by auto
    then have "1 \<le> \<bar>real_of_int n\<bar>" by linarith
    then have "u \<le> \<bar>real_of_int n\<bar> * u" using upos by simp
    moreover have "\<bar>v\<bar> = \<bar>real_of_int n\<bar> * u" using v upos by (simp add: abs_mult flip: v)
    ultimately have "u \<le> \<bar>v\<bar>" by simp
    moreover have "pow2 (- 149) \<le> u" unfolding u_def by (rule pow2_mono) (simp add: e_def)
    ultimately have "pow2 (- 149) \<le> \<bar>v\<bar>" by linarith
    then have l149: "- 149 \<le> l" unfolding l_def by (rule floor_log2_ge)
    then have e64: "max l (- 1022) = l" by simp
    define k where "k = e - l + 29"
    have k0: "0 \<le> k" by (simp add: k_def e_def)
    have "v / pow2 (l - 52) = of_int n * (u / pow2 (l - 52))" using v by (simp add: field_simps)
    also have "u / pow2 (l - 52) = pow2 k" by (simp add: u_def pow2_diff k_def add.commute)
    also have "\<dots> = of_int (2 ^ nat k)" using k0 by (rule pow2_int)
    finally have q: "v / pow2 (l - 52) = of_int (n * 2 ^ nat k)" by simp
    have whole: "of_int (n * 2 ^ nat k) * pow2 (l - 52) = v"
      using q pow2_pos[of "l - 52"] by (simp add: field_simps)
    have "pow2 128 \<le> pow2 1024" by (rule pow2_mono) simp
    then have big: "\<not> pow2 1024 \<le> \<bar>v\<bar>" using small v by linarith
    have "binary_round 53 (- 1022) 1023 v = Fin v"
      using False e64 big whole
      by (simp add: binary_round_def Let_def l_def[symmetric] q round_even_int
          del: of_int_mult of_int_power)
    then show ?thesis using Fin by (simp add: to_double_def)
  qed
qed (simp_all add: to_double_def)

lemma restore_value: "float32_value a \<Longrightarrow> restore a = a"
  by (simp add: restore_def float32_value_def float32_is_double)

subsection \<open>The step without pairs\<close>

text \<open>Loops over the bodies: what a loop leaves as it is, and what it does to one body.\<close>

lemma for_loop_append: "for_loop (xs @ ys) body s = for_loop ys body (for_loop xs body s)"
  by (induction xs arbitrary: s) simp_all

lemma for_each_Suc: "for_each (Suc n) body s = body n (for_each n body s)"
  by (simp add: for_each_def for_loop_append)

lemma for_each_0: "for_each 0 body s = s"
  by (simp add: for_each_def)

lemma for_each_frame:
  assumes "\<And>k s. g (body k s) = g s"
  shows "g (for_each n body s) = g s"
  by (induction n) (simp_all add: for_each_0 for_each_Suc assms)

lemma for_each_invariant:
  assumes "I s" and "\<And>k s. I s \<Longrightarrow> I (body k s)"
  shows "I (for_each n body s)"
  by (induction n) (simp_all add: for_each_0 for_each_Suc assms)

lemma for_each_cell:
  assumes inv0: "I s"
      and pres: "\<And>k s. I s \<Longrightarrow> I (body k s)"
      and other: "\<And>k s. I s \<Longrightarrow> k \<noteq> i \<Longrightarrow> g (body k s) = g s"
      and self: "\<And>s. I s \<Longrightarrow> g (body i s) = F (g s)"
  shows "I (for_each n body s) \<and> g (for_each n body s) = (if i < n then F (g s) else g s)"
proof (induction n)
  case 0
  then show ?case by (simp add: for_each_0 inv0)
next
  case (Suc n)
  then have I: "I (for_each n body s)"
    and g: "g (for_each n body s) = (if i < n then F (g s) else g s)" by simp_all
  show ?case
  proof (cases "n = i")
    case True
    then show ?thesis using I g pres self by (simp add: for_each_Suc)
  next
    case False
    then show ?thesis using I g pres other[OF I False] by (auto simp: for_each_Suc)
  qed
qed

lemma jsnum_add_zero: "a + Fin 0 = a"
  by (cases a) simp_all

lemma is_fin_iff: "is_fin a \<longleftrightarrow> (\<exists>r. a = Fin r)"
  by (cases a) simp_all

text \<open>The leap frog step, for body \<open>i\<close>.\<close>

lemmas leap_defs = leapfrog_def integrate_orientation_def integrate_position_def
  integrate_velocity_def Let_def

lemma leapfrog_setting: "setting (leapfrog dt k s) i = setting s i"
  by (simp add: setting_def arrays_sized_def finite_mass_def finite_inertia_def not_fixed_def
      numObjects_def leap_defs)

lemma leapfrog_no_force:
  "no_force (leapfrog dt k s) i = no_force s i" "no_torque (leapfrog dt k s) i = no_torque s i"
  by (simp_all add: no_force_def no_torque_def leap_defs)

lemma leapfrog_other:
  "k \<noteq> i \<Longrightarrow> linear_motion (leapfrog dt k s) i = linear_motion s i"
  "k \<noteq> i \<Longrightarrow> angular_velocity (leapfrog dt k s) i = angular_velocity s i"
  by (simp_all add: linear_motion_def angular_velocity_def leap_defs)

lemma leapfrog_fixed: "\<not> not_fixed s i \<Longrightarrow> leapfrog dt i s = s"
  by (simp add: leapfrog_def)

lemma leapfrog_linear:
  assumes "not_fixed s i" "arrays_sized s" "i < numObjects s" "no_force s i" "finite_mass s i"
  shows "linear_motion (leapfrog (Fin h) i s) i = advance (Fin h) (linear_motion s i)"
proof -
  obtain im where v: "world_invm s ! i = Fin im"
    using assms(5) by (auto simp: finite_mass_def is_fin_iff)
  show ?thesis
    using assms(1-4) v
    by (simp add: linear_motion_def advance_def restore_def leap_defs arrays_sized_def numObjects_def
        no_force_def rd_def jsnum_add_zero to_double_zero)
qed

lemma leapfrog_angular:
  assumes "not_fixed s i" "arrays_sized s" "i < numObjects s" "no_torque s i"
    "finite_inertia s i"
  shows "angular_velocity (leapfrog (Fin h) i s) i = settle (angular_velocity s i)"
proof -
  obtain Ix Iy Iz where v:
    "world_inertiax s ! i = Fin Ix" "world_inertiay s ! i = Fin Iy"
    "world_inertiaz s ! i = Fin Iz" "Ix \<noteq> 0" "Iy \<noteq> 0" "Iz \<noteq> 0"
    using assms(5) by (auto simp: finite_inertia_def is_fin_iff)
  show ?thesis
    using assms(1-4) v
    by (simp add: angular_velocity_def settle_def restore_def leap_defs arrays_sized_def numObjects_def
        no_torque_def rd_def jsnum_add_zero to_double_zero)
qed

lemma leapfrog_loop_setting: "setting (for_each n (leapfrog dt) s) i = setting s i"
  using for_each_frame[where g = "\<lambda>t. setting t i" and body = "leapfrog dt"] leapfrog_setting
  by simp

lemma leapfrog_loop_linear:
  assumes "arrays_sized s" "i < numObjects s" "no_force s i" "not_fixed s i" "finite_mass s i"
  shows "linear_motion (for_each (numObjects s) (leapfrog (Fin h)) s) i = advance (Fin h) (linear_motion s i)"
proof -
  let ?I = "\<lambda>t. setting t i = setting s i \<and> no_force t i"
  have "?I (for_each (numObjects s) (leapfrog (Fin h)) s)
        \<and> linear_motion (for_each (numObjects s) (leapfrog (Fin h)) s) i
           = (if i < numObjects s then advance (Fin h) (linear_motion s i) else linear_motion s i)"
  proof (rule for_each_cell[where I = ?I and g = "\<lambda>t. linear_motion t i" and F = "advance (Fin h)"])
    show "?I s" using assms(3) by simp
  next
    fix k t assume "?I t"
    then show "?I (leapfrog (Fin h) k t)" by (simp add: leapfrog_setting leapfrog_no_force)
  next
    fix k t assume "?I t" "k \<noteq> i"
    then show "linear_motion (leapfrog (Fin h) k t) i = linear_motion t i" by (simp add: leapfrog_other)
  next
    fix t assume I: "?I t"
    have "not_fixed t i" "arrays_sized t" "i < numObjects t" "no_force t i" "finite_mass t i"
      using I assms by (simp_all add: setting_def)
    then show "linear_motion (leapfrog (Fin h) i t) i = advance (Fin h) (linear_motion t i)"
      by (rule leapfrog_linear)
  qed
  then show ?thesis using assms(2) by simp
qed

lemma leapfrog_loop_angular:
  assumes "arrays_sized s" "i < numObjects s" "no_torque s i" "not_fixed s i"
    "finite_inertia s i"
  shows "angular_velocity (for_each (numObjects s) (leapfrog (Fin h)) s) i = settle (angular_velocity s i)"
proof -
  let ?I = "\<lambda>t. setting t i = setting s i \<and> no_torque t i"
  have "?I (for_each (numObjects s) (leapfrog (Fin h)) s)
        \<and> angular_velocity (for_each (numObjects s) (leapfrog (Fin h)) s) i
           = (if i < numObjects s then settle (angular_velocity s i) else angular_velocity s i)"
  proof (rule for_each_cell[where I = ?I and g = "\<lambda>t. angular_velocity t i" and F = settle])
    show "?I s" using assms(3) by simp
  next
    fix k t assume "?I t"
    then show "?I (leapfrog (Fin h) k t)" by (simp add: leapfrog_setting leapfrog_no_force)
  next
    fix k t assume "?I t" "k \<noteq> i"
    then show "angular_velocity (leapfrog (Fin h) k t) i = angular_velocity t i" by (simp add: leapfrog_other)
  next
    fix t assume I: "?I t"
    have "not_fixed t i" "arrays_sized t" "i < numObjects t" "no_torque t i" "finite_inertia t i"
      using I assms by (simp_all add: setting_def)
    then show "angular_velocity (leapfrog (Fin h) i t) i = settle (angular_velocity t i)"
      by (rule leapfrog_angular)
  qed
  then show ?thesis using assms(2) by simp
qed

lemma leapfrog_loop_fixed:
  assumes "\<not> not_fixed s i"
  shows "linear_motion (for_each n (leapfrog dt) s) i = linear_motion s i"
    and "angular_velocity (for_each n (leapfrog dt) s) i = angular_velocity s i"
proof -
  let ?I = "\<lambda>t. setting t i = setting s i"
  let ?g = "\<lambda>t. (linear_motion t i, angular_velocity t i)"
  have "?I (for_each n (leapfrog dt) s)
        \<and> ?g (for_each n (leapfrog dt) s) = (if i < n then id (?g s) else ?g s)"
  proof (rule for_each_cell[where I = ?I and g = ?g and F = id])
    show "?I s" by simp
  next
    fix k t assume "?I t"
    then show "?I (leapfrog dt k t)" by (simp add: leapfrog_setting)
  next
    fix k t assume "?I t" "k \<noteq> i"
    then show "?g (leapfrog dt k t) = ?g t" by (simp add: leapfrog_other)
  next
    fix t assume "?I t"
    then have "\<not> not_fixed t i" using assms by (simp add: setting_def)
    then show "?g (leapfrog dt i t) = id (?g t)" by (simp add: leapfrog_fixed)
  qed
  then have "?g (for_each n (leapfrog dt) s) = ?g s" by simp
  then show "linear_motion (for_each n (leapfrog dt) s) i = linear_motion s i"
    and "angular_velocity (for_each n (leapfrog dt) s) i = angular_velocity s i" by simp_all
qed

text \<open>Gravity and the reset of the forces, for body \<open>i\<close>.\<close>

lemma add_gravity_frame:
  "(linear_motion (add_gravity k s) i, angular_velocity (add_gravity k s) i, setting (add_gravity k s) i,
    world_gravity (add_gravity k s), world_mass (add_gravity k s), no_torque (add_gravity k s) i)
   = (linear_motion s i, angular_velocity s i, setting s i, world_gravity s, world_mass s, no_torque s i)"
  by (simp add: add_gravity_def linear_motion_def angular_velocity_def setting_def arrays_sized_def
      finite_mass_def finite_inertia_def not_fixed_def numObjects_def no_torque_def)

lemma add_gravity_other: "k \<noteq> i \<Longrightarrow> no_force (add_gravity k s) i = no_force s i"
  by (simp add: add_gravity_def no_force_def)

lemma add_gravity_self:
  assumes "world_gravity s = Some (V3 (Fin 0) (Fin 0) (Fin 0))" "is_fin (world_mass s ! i)"
    "arrays_sized s" "i < numObjects s" "no_force s i"
  shows "no_force (add_gravity i s) i"
proof -
  obtain m where "world_mass s ! i = Fin m" using assms(2) by (auto simp: is_fin_iff)
  then show ?thesis
    using assms(1,3,4,5)
    by (simp add: add_gravity_def no_force_def gravity_x_def gravity_y_def gravity_z_def
        arrays_sized_def numObjects_def rd_def to_double_zero to_float32_zero)
qed

lemma gravity_loop:
  assumes "world_gravity s = Some (V3 (Fin 0) (Fin 0) (Fin 0))" "is_fin (world_mass s ! i)"
    "arrays_sized s" "i < numObjects s" "no_force s i"
  shows "no_force (for_each n add_gravity s) i"
proof -
  let ?I = "\<lambda>t. setting t i = setting s i \<and> world_gravity t = world_gravity s
                \<and> world_mass t = world_mass s \<and> no_force t i"
  have "?I (for_each n add_gravity s)"
  proof (rule for_each_invariant[where I = ?I])
    show "?I s" using assms(5) by simp
  next
    fix k t assume I: "?I t"
    then have t: "world_gravity t = Some (V3 (Fin 0) (Fin 0) (Fin 0))"
      "is_fin (world_mass t ! i)" "arrays_sized t" "i < numObjects t" "no_force t i"
      using assms by (simp_all add: setting_def)
    have "no_force (add_gravity k t) i"
    proof (cases "k = i")
      case True
      then show ?thesis using t by (simp add: add_gravity_self)
    next
      case False
      then show ?thesis using t(5) by (simp add: add_gravity_other)
    qed
    then show "?I (add_gravity k t)" using I add_gravity_frame[of k t i] by simp
  qed
  then show ?thesis by simp
qed

lemma gravity_loop_frame:
  "(linear_motion (for_each n add_gravity s) i, angular_velocity (for_each n add_gravity s) i,
    setting (for_each n add_gravity s) i, no_torque (for_each n add_gravity s) i)
   = (linear_motion s i, angular_velocity s i, setting s i, no_torque s i)"
  using for_each_frame[where g = "\<lambda>t. (linear_motion t i, angular_velocity t i, setting t i, no_torque t i)"
      and body = add_gravity]
    add_gravity_frame
  by simp

lemma reset_forces_frame:
  "(linear_motion (reset_forces k s) i, angular_velocity (reset_forces k s) i) = (linear_motion s i, angular_velocity s i)"
  by (simp add: reset_forces_def linear_motion_def angular_velocity_def)

lemma reset_loop_frame:
  "(linear_motion (for_each n reset_forces s) i, angular_velocity (for_each n reset_forces s) i)
   = (linear_motion s i, angular_velocity s i)"
  using for_each_frame[where g = "\<lambda>t. (linear_motion t i, angular_velocity t i)" and body = reset_forces]
    reset_forces_frame
  by simp

text \<open>The step of a world that the variable \<open>world\<close> names, when the broadphase returns
  no pair.\<close>

lemma solver_n_reset: "solver_n (reset n s) = 0"
  by (simp add: reset_def Let_def)

lemma numObjects_loops:
  "numObjects (for_each n add_gravity s) = numObjects s"
  "numObjects (for_each n (leapfrog dt) s) = numObjects s"
  "numObjects (for_each n reset_forces s) = numObjects s"
  using for_each_frame[where g = numObjects and body = add_gravity and n = n and s = s]
    for_each_frame[where g = numObjects and body = "leapfrog dt" and n = n and s = s]
    for_each_frame[where g = numObjects and body = reset_forces and n = n and s = s]
  by (simp_all add: numObjects_def add_gravity_def reset_forces_def leap_defs)

lemma step_no_pairs:
  assumes "\<not> world_paused w" "broadphase w = Inr ([], [])" "numObjects w \<noteq> 0"
  shows "step broadphase dt (Some ThisWorld) w =
     (let N = numObjects w;
          w1 = w \<lparr> world_collision_matrix := rotate_history N (world_collision_matrix w) \<rparr>;
          w2 = for_each N add_gravity w1;
          w3 = w2 \<lparr> world_solver := reset N (world_solver w2) \<rparr>;
          w6 = for_each N (leapfrog dt) w3;
          w7 = for_each N reset_forces w6
      in Inr (w7 \<lparr> world_time := world_time w7 + dt,
                   world_stepnumber := world_stepnumber w7 + 1 \<rparr>, Some ThisWorld))"
proof -
  have n: "numObjects (t \<lparr> world_collision_matrix := c \<rparr>) = numObjects t"
    "numObjects (t \<lparr> world_solver := r \<rparr>) = numObjects t" for t c r
    by (simp_all add: numObjects_def)
  show ?thesis
    using assms
    by (simp add: step_def step_worlds_def on_world_def on_this_def world_of_def
        solve_constraints_def solver_n_reset Let_def numObjects_loops n)
qed

lemma step_motion:
  assumes "\<not> world_paused w" "broadphase w = Inr ([], [])"
    and "world_gravity w = Some (V3 (Fin 0) (Fin 0) (Fin 0))"
    and "arrays_sized w" "i < numObjects w" "no_force w i" "no_torque w i"
  shows "\<exists>w'. step broadphase (Fin h) (Some ThisWorld) w = Inr (w', Some ThisWorld)
      \<and> (world_fixed w ! i \<noteq> 0 \<longrightarrow>
            linear_motion w' i = linear_motion w i
          \<and> angular_velocity w' i = angular_velocity w i)
      \<and> (world_fixed w ! i = 0 \<and> finite_mass w i \<longrightarrow>
            linear_motion w' i = advance (Fin h) (linear_motion w i))
      \<and> (world_fixed w ! i = 0 \<and> finite_inertia w i \<longrightarrow>
            angular_velocity w' i = settle (angular_velocity w i))"
proof -
  define N where "N = numObjects w"
  define w1 where "w1 = w \<lparr> world_collision_matrix := rotate_history N (world_collision_matrix w) \<rparr>"
  define w2 where "w2 = for_each N add_gravity w1"
  define w3 where "w3 = w2 \<lparr> world_solver := reset N (world_solver w2) \<rparr>"
  define w6 where "w6 = for_each N (leapfrog (Fin h)) w3"
  define w7 where "w7 = for_each N reset_forces w6"
  define w8 where "w8 = w7 \<lparr> world_time := world_time w7 + Fin h,
                              world_stepnumber := world_stepnumber w7 + 1 \<rparr>"
  have N0: "numObjects w \<noteq> 0" using assms(5) by simp
  have st: "step broadphase (Fin h) (Some ThisWorld) w = Inr (w8, Some ThisWorld)"
    unfolding w8_def w7_def w6_def w3_def w2_def w1_def N_def
    using step_no_pairs[where w = w and broadphase = broadphase and dt = "Fin h"]
      assms(1,2) N0
    by (simp add: Let_def)
  have fixed_iff: "not_fixed w i \<longleftrightarrow> world_fixed w ! i = 0"
    using assms(4,5) by (simp add: not_fixed_def rdi_def arrays_sized_def)
  have v1: "linear_motion w1 i = linear_motion w i"
    "angular_velocity w1 i = angular_velocity w i" "setting w1 i = setting w i"
    "no_force w1 i" "no_torque w1 i"
    "world_gravity w1 = Some (V3 (Fin 0) (Fin 0) (Fin 0))" "world_mass w1 = world_mass w"
    using assms(3,6,7)
    by (simp_all add: w1_def linear_motion_def angular_velocity_def setting_def
        arrays_sized_def finite_mass_def finite_inertia_def
        not_fixed_def numObjects_def no_force_def no_torque_def)
  have v2: "linear_motion w2 i = linear_motion w i"
    "angular_velocity w2 i = angular_velocity w i" "setting w2 i = setting w i"
    "no_torque w2 i"
    using gravity_loop_frame[of N w1 i] v1 by (simp_all add: w2_def)
  have v3a: "linear_motion w3 i = linear_motion w2 i"
    "angular_velocity w3 i = angular_velocity w2 i" "setting w3 i = setting w2 i"
    "no_torque w3 i = no_torque w2 i" "no_force w3 i = no_force w2 i"
    by (simp_all add: w3_def linear_motion_def angular_velocity_def setting_def
        arrays_sized_def finite_mass_def finite_inertia_def
        not_fixed_def numObjects_def no_force_def no_torque_def)
  have v3: "linear_motion w3 i = linear_motion w i"
    "angular_velocity w3 i = angular_velocity w i" "setting w3 i = setting w i"
    "no_torque w3 i"
    using v2 v3a by simp_all
  have n3: "numObjects w3 = N" "arrays_sized w3" "not_fixed w3 i = not_fixed w i"
    "finite_mass w3 i = finite_mass w i" "finite_inertia w3 i = finite_inertia w i"
    using v3(3) assms(4) by (simp_all add: setting_def N_def)
  have iN: "i < numObjects w3" using n3(1) assms(5) by (simp add: N_def)
  have fixed6: "linear_motion w6 i = linear_motion w i
                \<and> angular_velocity w6 i = angular_velocity w i"
    if "world_fixed w ! i \<noteq> 0"
  proof -
    have "\<not> not_fixed w3 i" using that n3 fixed_iff by simp
    then show ?thesis
      using v3 leapfrog_loop_fixed[of w3 i N "Fin h"] by (simp add: w6_def)
  qed
  have linear6: "linear_motion w6 i = advance (Fin h) (linear_motion w i)"
    if "world_fixed w ! i = 0" "finite_mass w i"
  proof -
    have "is_fin (world_mass w1 ! i)" using that(2) v1(7) by (simp add: finite_mass_def)
    moreover have "arrays_sized w1" "i < numObjects w1"
      using v1(3) assms(4,5) by (simp_all add: setting_def)
    ultimately have "no_force w2 i"
      using gravity_loop[of w1 i N] v1(4,6) by (simp add: w2_def)
    then have "no_force w3 i" using v3a(5) by simp
    moreover have "not_fixed w3 i" "finite_mass w3 i" using that n3 fixed_iff by simp_all
    ultimately have "linear_motion (for_each (numObjects w3) (leapfrog (Fin h)) w3) i
          = advance (Fin h) (linear_motion w3 i)"
      using iN n3(2) by (intro leapfrog_loop_linear)
    then show ?thesis using v3(1) n3(1) by (simp add: w6_def)
  qed
  have angular6: "angular_velocity w6 i = settle (angular_velocity w i)"
    if "world_fixed w ! i = 0" "finite_inertia w i"
  proof -
    have "not_fixed w3 i" "finite_inertia w3 i" using that n3 fixed_iff by simp_all
    then have "angular_velocity (for_each (numObjects w3) (leapfrog (Fin h)) w3) i
          = settle (angular_velocity w3 i)"
      using iN n3(2) v3(4) by (intro leapfrog_loop_angular)
    then show ?thesis using v3(2) n3(1) by (simp add: w6_def)
  qed
  have "linear_motion w8 i = linear_motion w7 i" "angular_velocity w8 i = angular_velocity w7 i"
    by (simp_all add: w8_def linear_motion_def angular_velocity_def)
  moreover have "linear_motion w7 i = linear_motion w6 i"
    "angular_velocity w7 i = angular_velocity w6 i"
    using reset_loop_frame[of N w6 i] by (simp_all add: w7_def)
  ultimately have "linear_motion w8 i = linear_motion w6 i"
    "angular_velocity w8 i = angular_velocity w6 i" by simp_all
  then show ?thesis using st fixed6 linear6 angular6 by simp
qed

text \<open>The example worlds.\<close>

lemmas build_defs =
  RigidBody_def Sphere_def Plane_def setVelocity_def setPosition_def add_def World_def
  set_gravity_def
  Solver_def reset_def numObjects_def grow_def growi_def rd_def Vec3_def or0_def
  arrays_sized_def no_force_def no_torque_def finite_mass_def finite_inertia_def
  NaiveBroadphase_collisionPairs_def
  lower_pairs_def Let_def
  normalize3_def norm3_def

lemmas round32 = binary_round_at[where p = 24 and emin = "- 126" and emax = 127]
lemmas round64 = binary_round_at[where p = 53 and emin = "- 1022" and emax = 1023]
lemmas round_defs = to_float32_def to_double_def pow2_def round_even_def Let_def

lemma float32_small:
  "float32_value (Fin 0)" "float32_value (Fin 1)" "float32_value (Fin 2)"
  "float32_value (Fin 3)"
  using round32[where k = 0 and r = 1] round32[where k = 1 and r = 2]
    round32[where k = 1 and r = 3]
  by (simp_all add: float32_value_def round_defs binary_round_def)

lemma round_sixtieth:
  "to_double (Fin (1/60)) = Fin (4803839602528529 / 288230376151711744)"
  "to_double (Fin (4803839602528529 / 288230376151711744))
     = Fin (4803839602528529 / 288230376151711744)"
  "to_float32 (Fin (4803839602528529 / 288230376151711744)) = Fin (8947849 / 536870912)"
  using round64[where k = "- 6" and r = "1/60"]
    round64[where k = "- 6" and r = "4803839602528529 / 288230376151711744"]
    round32[where k = "- 6" and r = "4803839602528529 / 288230376151711744"]
  by (simp_all add: round_defs)

lemma round_thirtieth:
  "to_double (Fin (1/30)) = Fin (4803839602528529 / 144115188075855872)"
  "to_double (Fin (4803839602528529 / 144115188075855872))
     = Fin (4803839602528529 / 144115188075855872)"
  "to_float32 (Fin (4803839602528529 / 144115188075855872)) = Fin (8947849 / 268435456)"
  using round64[where k = "- 5" and r = "1/30"]
    round64[where k = "- 5" and r = "4803839602528529 / 144115188075855872"]
    round32[where k = "- 5" and r = "4803839602528529 / 144115188075855872"]
  by (simp_all add: round_defs)

lemma round_twentieth:
  "to_double (Fin (1/20)) = Fin (3602879701896397 / 72057594037927936)"
  "to_double (Fin (3602879701896397 / 72057594037927936))
     = Fin (3602879701896397 / 72057594037927936)"
  "to_float32 (Fin (3602879701896397 / 72057594037927936)) = Fin (13421773 / 268435456)"
  using round64[where k = "- 5" and r = "1/20"]
    round64[where k = "- 5" and r = "3602879701896397 / 72057594037927936"]
    round32[where k = "- 5" and r = "3602879701896397 / 72057594037927936"]
  by (simp_all add: round_defs)

lemma round_far:
  "to_double (Fin 1) = Fin 1"
  "to_double (Fin 16777217) = Fin 16777217"
  "to_float32 (Fin 16777217) = Fin 16777216"
  using round64[where k = 0 and r = 1]
    round64[where k = 24 and r = 16777217]
    round32[where k = 24 and r = 16777217]
  by (simp_all add: round_defs)

lemma moving_sphere_world_facts:
  "\<not> world_paused moving_sphere_world"
  "NaiveBroadphase_collisionPairs moving_sphere_world = Inr ([], [])"
  "world_gravity moving_sphere_world = Some (V3 (Fin 0) (Fin 0) (Fin 0))"
  "arrays_sized moving_sphere_world" "0 < numObjects moving_sphere_world"
  "no_force moving_sphere_world 0" "no_torque moving_sphere_world 0"
  "world_fixed moving_sphere_world ! 0 = 0"
  "finite_mass moving_sphere_world 0" "finite_inertia moving_sphere_world 0"
  by (simp_all add: moving_sphere_world_def build_defs)

lemma moving_sphere_world_motion:
  "world_vx moving_sphere_world = [Fin 1]" "world_vy moving_sphere_world = [Fin 2]"
  "world_vz moving_sphere_world = [Fin 3]"
  "world_wx moving_sphere_world = [Fin 0]" "world_wy moving_sphere_world = [Fin 0]"
  "world_wz moving_sphere_world = [Fin 0]"
  "world_x moving_sphere_world = [Fin 0]" "world_y moving_sphere_world = [Fin 0]"
  "world_z moving_sphere_world = [Fin 0]"
  by (simp_all add: moving_sphere_world_def build_defs)

lemma moving_sphere_world_float32:
  "float32_velocity moving_sphere_world 0" "float32_rotation moving_sphere_world 0"
  by (simp_all add: float32_velocity_def float32_rotation_def moving_sphere_world_motion
      float32_small)

lemma fixed_sphere_world_facts:
  "\<not> world_paused fixed_sphere_world"
  "NaiveBroadphase_collisionPairs fixed_sphere_world = Inr ([], [])"
  "world_gravity fixed_sphere_world = Some (V3 (Fin 0) (Fin 0) (Fin 0))"
  "arrays_sized fixed_sphere_world" "0 < numObjects fixed_sphere_world"
  "no_force fixed_sphere_world 0" "no_torque fixed_sphere_world 0"
  "world_fixed fixed_sphere_world ! 0 = 1"
  "world_vx fixed_sphere_world = [Fin 1]" "world_x fixed_sphere_world = [Fin 0]"
  by (simp_all add: fixed_sphere_world_def build_defs)

lemma movable_plane_world_facts:
  "world_fixed movable_plane_world = [0]" "world_inertiax movable_plane_world = [Fin 0]"
  "world_wx movable_plane_world = [Fin 0]" "world_taux movable_plane_world = [Fin 0]"
  "numObjects movable_plane_world = 1" "\<not> world_paused movable_plane_world"
  "no_force movable_plane_world 0" "no_torque movable_plane_world 0"
  "NaiveBroadphase_collisionPairs movable_plane_world = Inr ([], [])"
  "world_gravity movable_plane_world = Some (V3 (Fin 0) (Fin 0) (Fin 0))"
  by (simp_all add: movable_plane_world_def build_defs)

lemma far_sphere_world_facts:
  "\<not> world_paused far_sphere_world"
  "NaiveBroadphase_collisionPairs far_sphere_world = Inr ([], [])"
  "world_gravity far_sphere_world = Some (V3 (Fin 0) (Fin 0) (Fin 0))"
  "arrays_sized far_sphere_world" "0 < numObjects far_sphere_world"
  "no_force far_sphere_world 0" "no_torque far_sphere_world 0"
  "world_fixed far_sphere_world ! 0 = 0" "finite_mass far_sphere_world 0"
  "world_vx far_sphere_world = [Fin 1]" "world_x far_sphere_world = [Fin 16777216]"
  by (simp_all add: far_sphere_world_def build_defs)

text \<open>
  C7, as the code has it.  The world is not paused, the global variable \<open>world\<close> names
  it, its arrays have one element for each body, the broadphase (the naive one or any
  other) returns no pair, gravity is the zero vector, the time step \<open>dt\<close> is finite, and
  body \<open>i\<close> has no force and no torque.  Then \<open>step(dt)\<close> returns.  If body \<open>i\<close> is
  fixed, its velocities and its position stay as they were, whatever its velocity.  If
  it is not fixed, its mass and its inverse mass are finite and the components of its
  linear velocity are 32-bit floats (as the elements of a Float32Array are), then the
  linear velocity stays as it was and the position becomes \<open>x + v * dt\<close> as the machine
  computes it: the product and the sum each rounded to a double, and the sum rounded to a
  32-bit float by the store.  If it is not fixed, the three components of its inertia are
  finite and not zero and the components of its angular velocity are 32-bit floats, then
  the angular velocity stays as it was.
\<close>

theorem step_without_pairs:
  assumes "\<not> world_paused w" "broadphase w = Inr ([], [])"
    and "world_gravity w = Some (V3 (Fin 0) (Fin 0) (Fin 0))"
    and "arrays_sized w" "i < numObjects w" "no_force w i" "no_torque w i"
  shows "case step broadphase (Fin h) (Some ThisWorld) w of
           Inl err \<Rightarrow> False
         | Inr (w', global') \<Rightarrow>
             global' = Some ThisWorld
           \<and> (world_fixed w ! i \<noteq> 0 \<longrightarrow>
                 world_vx w' ! i = world_vx w ! i \<and> world_vy w' ! i = world_vy w ! i
               \<and> world_vz w' ! i = world_vz w ! i
               \<and> world_wx w' ! i = world_wx w ! i \<and> world_wy w' ! i = world_wy w ! i
               \<and> world_wz w' ! i = world_wz w ! i
               \<and> world_x w' ! i = world_x w ! i \<and> world_y w' ! i = world_y w ! i
               \<and> world_z w' ! i = world_z w ! i)
           \<and> (world_fixed w ! i = 0 \<and> finite_mass w i \<and> float32_velocity w i \<longrightarrow>
                 world_vx w' ! i = world_vx w ! i \<and> world_vy w' ! i = world_vy w ! i
               \<and> world_vz w' ! i = world_vz w ! i
               \<and> world_x w' ! i
                   = to_float32 (to_double (world_x w ! i + to_double (world_vx w ! i * Fin h)))
               \<and> world_y w' ! i
                   = to_float32 (to_double (world_y w ! i + to_double (world_vy w ! i * Fin h)))
               \<and> world_z w' ! i
                   = to_float32 (to_double (world_z w ! i + to_double (world_vz w ! i * Fin h))))
           \<and> (world_fixed w ! i = 0 \<and> finite_inertia w i \<and> float32_rotation w i \<longrightarrow>
                 world_wx w' ! i = world_wx w ! i \<and> world_wy w' ! i = world_wy w ! i
               \<and> world_wz w' ! i = world_wz w ! i)"
proof -
  obtain w' where w':
    "step broadphase (Fin h) (Some ThisWorld) w = Inr (w', Some ThisWorld)"
    "world_fixed w ! i \<noteq> 0 \<longrightarrow>
       linear_motion w' i = linear_motion w i \<and> angular_velocity w' i = angular_velocity w i"
    "world_fixed w ! i = 0 \<and> finite_mass w i \<longrightarrow>
       linear_motion w' i = advance (Fin h) (linear_motion w i)"
    "world_fixed w ! i = 0 \<and> finite_inertia w i \<longrightarrow>
       angular_velocity w' i = settle (angular_velocity w i)"
    using step_motion[where w = w and broadphase = broadphase and i = i and h = h] assms
    by blast
  show ?thesis
    using w'
    by (simp add: linear_motion_def angular_velocity_def advance_def settle_def
        float32_velocity_def float32_rotation_def restore_value)
qed

text \<open>
  A sphere of mass 1 with the velocity \<open>(1, 2, 3)\<close> at the origin, and \<open>step(1/60)\<close>:
  the velocities stay, and the position becomes
  \<open>(8947849 / 2 ^ 29, 8947849 / 2 ^ 28, 13421773 / 2 ^ 28)\<close>, the 32-bit floats next to
  \<open>1/60\<close>, \<open>1/30\<close> and \<open>1/20\<close>.  A fixed sphere with the velocity \<open>(1, 0, 0)\<close>, and
  \<open>step(1)\<close>: the velocity and the position stay.
\<close>

theorem step_without_pairs_witness:
  "\<not> world_paused moving_sphere_world
   \<and> NaiveBroadphase_collisionPairs moving_sphere_world = Inr ([], [])
   \<and> world_gravity moving_sphere_world = Some (V3 (Fin 0) (Fin 0) (Fin 0))
   \<and> arrays_sized moving_sphere_world \<and> 0 < numObjects moving_sphere_world
   \<and> no_force moving_sphere_world 0 \<and> no_torque moving_sphere_world 0
   \<and> world_fixed moving_sphere_world ! 0 = 0
   \<and> finite_mass moving_sphere_world 0 \<and> float32_velocity moving_sphere_world 0
   \<and> finite_inertia moving_sphere_world 0 \<and> float32_rotation moving_sphere_world 0
   \<and> \<not> isl (step NaiveBroadphase_collisionPairs (Fin (1/60)) (Some ThisWorld)
               moving_sphere_world)
   \<and> (let w' = fst (projr (step NaiveBroadphase_collisionPairs (Fin (1/60)) (Some ThisWorld)
                              moving_sphere_world))
      in (world_vx w' ! 0, world_vy w' ! 0, world_vz w' ! 0) = (Fin 1, Fin 2, Fin 3)
       \<and> (world_wx w' ! 0, world_wy w' ! 0, world_wz w' ! 0) = (Fin 0, Fin 0, Fin 0)
       \<and> world_x w' ! 0 = Fin (8947849 / 536870912)
       \<and> world_y w' ! 0 = Fin (8947849 / 268435456)
       \<and> world_z w' ! 0 = Fin (13421773 / 268435456))
   \<and> \<not> world_paused fixed_sphere_world
   \<and> NaiveBroadphase_collisionPairs fixed_sphere_world = Inr ([], [])
   \<and> world_gravity fixed_sphere_world = Some (V3 (Fin 0) (Fin 0) (Fin 0))
   \<and> arrays_sized fixed_sphere_world \<and> 0 < numObjects fixed_sphere_world
   \<and> no_force fixed_sphere_world 0 \<and> no_torque fixed_sphere_world 0
   \<and> world_fixed fixed_sphere_world ! 0 = 1
   \<and> \<not> isl (step NaiveBroadphase_collisionPairs (Fin 1) (Some ThisWorld)
               fixed_sphere_world)
   \<and> (let w' = fst (projr (step NaiveBroadphase_collisionPairs (Fin 1) (Some ThisWorld)
                              fixed_sphere_world))
      in world_vx w' ! 0 = Fin 1 \<and> world_x w' ! 0 = Fin 0)"
proof -
  have moving:
    "\<not> isl (step NaiveBroadphase_collisionPairs (Fin (1/60)) (Some ThisWorld)
               moving_sphere_world)
     \<and> (let w' = fst (projr (step NaiveBroadphase_collisionPairs (Fin (1/60)) (Some ThisWorld)
                              moving_sphere_world))
        in (world_vx w' ! 0, world_vy w' ! 0, world_vz w' ! 0) = (Fin 1, Fin 2, Fin 3)
         \<and> (world_wx w' ! 0, world_wy w' ! 0, world_wz w' ! 0) = (Fin 0, Fin 0, Fin 0)
         \<and> world_x w' ! 0 = Fin (8947849 / 536870912)
         \<and> world_y w' ! 0 = Fin (8947849 / 268435456)
         \<and> world_z w' ! 0 = Fin (13421773 / 268435456))"
    using step_without_pairs[where w = moving_sphere_world
        and broadphase = NaiveBroadphase_collisionPairs
        and i = 0 and h = "1/60"]
      moving_sphere_world_facts moving_sphere_world_motion moving_sphere_world_float32
    by (auto simp: round_sixtieth round_thirtieth round_twentieth split: sum.splits)
  have fixed:
    "\<not> isl (step NaiveBroadphase_collisionPairs (Fin 1) (Some ThisWorld)
               fixed_sphere_world)
     \<and> (let w' = fst (projr (step NaiveBroadphase_collisionPairs (Fin 1) (Some ThisWorld)
                              fixed_sphere_world))
        in world_vx w' ! 0 = Fin 1 \<and> world_x w' ! 0 = Fin 0)"
    using step_without_pairs[where w = fixed_sphere_world
        and broadphase = NaiveBroadphase_collisionPairs
        and i = 0 and h = 1]
      fixed_sphere_world_facts
    by (auto split: sum.splits)
  from moving fixed moving_sphere_world_facts moving_sphere_world_float32
    fixed_sphere_world_facts
  show ?thesis by simp
qed

text \<open>
  C7, as the claim states it, fails.  A fixed sphere with the velocity \<open>(1, 0, 0)\<close> in a
  world without gravity and without pairs is not moved by \<open>step(1)\<close>: its \<open>x\<close> stays 0,
  not \<open>0 + 1 * 1\<close>.  A plane of mass 1 has zero inertia, and \<open>step(1)\<close> changes its
  angular velocity from 0 to \<open>0 * 1.0 / 0 * 1\<close>, which is NaN.  A sphere of mass 1 at
  \<open>x = 16777216\<close> with the velocity \<open>(1, 0, 0)\<close> is left at \<open>x = 16777216\<close> by
  \<open>step(1)\<close>: the sum 16777217 is no 32-bit float, and the store rounds it to the even
  neighbour.  Where no global variable \<open>world\<close> exists, \<open>step\<close> raises a
  ReferenceError; where it names another world, the sphere with the velocity
  \<open>(1, 2, 3)\<close> of the world that steps is not moved; nor is it in a paused world.
  With the infinite time step \<open>dt = Infinity\<close> its velocity becomes
  \<open>1 + 0 * 1 * Infinity\<close>, which is NaN.
\<close>

theorem step_without_pairs_counterexample:
  "NaiveBroadphase_collisionPairs fixed_sphere_world = Inr ([], [])
   \<and> world_gravity fixed_sphere_world = Some (V3 (Fin 0) (Fin 0) (Fin 0))
   \<and> no_force fixed_sphere_world 0 \<and> no_torque fixed_sphere_world 0
   \<and> \<not> isl (step NaiveBroadphase_collisionPairs (Fin 1) (Some ThisWorld) fixed_sphere_world)
   \<and> world_x (fst (projr (step NaiveBroadphase_collisionPairs (Fin 1) (Some ThisWorld)
                              fixed_sphere_world))) ! 0
       = Fin 0
   \<and> world_x fixed_sphere_world ! 0 + world_vx fixed_sphere_world ! 0 * Fin 1 = Fin 1
   \<and> world_x (fst (projr (step NaiveBroadphase_collisionPairs (Fin 1) (Some ThisWorld)
                              fixed_sphere_world))) ! 0
       \<noteq> world_x fixed_sphere_world ! 0 + world_vx fixed_sphere_world ! 0 * Fin 1
   \<and> NaiveBroadphase_collisionPairs movable_plane_world = Inr ([], [])
   \<and> world_gravity movable_plane_world = Some (V3 (Fin 0) (Fin 0) (Fin 0))
   \<and> no_force movable_plane_world 0 \<and> no_torque movable_plane_world 0
   \<and> \<not> isl (step NaiveBroadphase_collisionPairs (Fin 1) (Some ThisWorld) movable_plane_world)
   \<and> world_wx movable_plane_world ! 0 = Fin 0
   \<and> world_wx (fst (projr (step NaiveBroadphase_collisionPairs (Fin 1) (Some ThisWorld)
                               movable_plane_world))) ! 0
       = NaN
   \<and> world_wx (fst (projr (step NaiveBroadphase_collisionPairs (Fin 1) (Some ThisWorld)
                               movable_plane_world))) ! 0
       \<noteq> world_wx movable_plane_world ! 0
   \<and> NaiveBroadphase_collisionPairs far_sphere_world = Inr ([], [])
   \<and> world_gravity far_sphere_world = Some (V3 (Fin 0) (Fin 0) (Fin 0))
   \<and> no_force far_sphere_world 0 \<and> no_torque far_sphere_world 0
   \<and> world_fixed far_sphere_world ! 0 = 0
   \<and> \<not> isl (step NaiveBroadphase_collisionPairs (Fin 1) (Some ThisWorld) far_sphere_world)
   \<and> world_x (fst (projr (step NaiveBroadphase_collisionPairs (Fin 1) (Some ThisWorld)
                              far_sphere_world))) ! 0
       = Fin 16777216
   \<and> world_x far_sphere_world ! 0 + world_vx far_sphere_world ! 0 * Fin 1 = Fin 16777217
   \<and> world_x (fst (projr (step NaiveBroadphase_collisionPairs (Fin 1) (Some ThisWorld)
                              far_sphere_world))) ! 0
       \<noteq> world_x far_sphere_world ! 0 + world_vx far_sphere_world ! 0 * Fin 1
   \<and> NaiveBroadphase_collisionPairs moving_sphere_world = Inr ([], [])
   \<and> world_gravity moving_sphere_world = Some (V3 (Fin 0) (Fin 0) (Fin 0))
   \<and> no_force moving_sphere_world 0 \<and> no_torque moving_sphere_world 0
   \<and> world_fixed moving_sphere_world ! 0 = 0
   \<and> world_vx moving_sphere_world ! 0 = Fin 1
   \<and> world_x moving_sphere_world ! 0 = Fin 0
   \<and> step NaiveBroadphase_collisionPairs (Fin 1) None moving_sphere_world
       = Inl ReferenceError
   \<and> \<not> isl (step NaiveBroadphase_collisionPairs (Fin 1) (Some (OtherWorld fixed_sphere_world))
               moving_sphere_world)
   \<and> world_x (fst (projr (step NaiveBroadphase_collisionPairs (Fin 1)
                              (Some (OtherWorld fixed_sphere_world)) moving_sphere_world))) ! 0
       = Fin 0
   \<and> \<not> isl (step NaiveBroadphase_collisionPairs (Fin 1) (Some ThisWorld)
               (moving_sphere_world \<lparr> world_paused := True \<rparr>))
   \<and> world_x (fst (projr (step NaiveBroadphase_collisionPairs (Fin 1) (Some ThisWorld)
                              (moving_sphere_world \<lparr> world_paused := True \<rparr>)))) ! 0
       = Fin 0
   \<and> \<not> isl (step NaiveBroadphase_collisionPairs PInf (Some ThisWorld) moving_sphere_world)
   \<and> world_vx (fst (projr (step NaiveBroadphase_collisionPairs PInf (Some ThisWorld)
                               moving_sphere_world))) ! 0
       = NaN"
proof -
  have fixed:
    "\<not> isl (step NaiveBroadphase_collisionPairs (Fin 1) (Some ThisWorld) fixed_sphere_world)
     \<and> world_x (fst (projr (step NaiveBroadphase_collisionPairs (Fin 1) (Some ThisWorld)
                                fixed_sphere_world))) ! 0
         = Fin 0
     \<and> world_x fixed_sphere_world ! 0 + world_vx fixed_sphere_world ! 0 * Fin 1 = Fin 1"
    using step_motion[where w = fixed_sphere_world
        and broadphase = NaiveBroadphase_collisionPairs and i = 0 and h = 1]
      fixed_sphere_world_facts
    by (auto simp: linear_motion_def)
  have a: "world_wx (reset_forces 0 s) = world_wx s" "world_vx (reset_forces 0 s) = world_vx s"
    for s
    by (simp_all add: reset_forces_def)
  have b: "world_wx (leapfrog dt 0 s) ! 0 =
      (if not_fixed s 0 then (world_wx (integrate_velocity dt 0 s)) ! 0 else world_wx s ! 0)"
    "world_vx (leapfrog dt 0 s) ! 0 =
      (if not_fixed s 0 then (world_vx (integrate_velocity dt 0 s)) ! 0 else world_vx s ! 0)"
    for s dt
    by (simp_all add: leapfrog_def integrate_orientation_def integrate_position_def Let_def)
  have plane:
    "\<not> isl (step NaiveBroadphase_collisionPairs (Fin 1) (Some ThisWorld) movable_plane_world)
     \<and> world_wx movable_plane_world ! 0 = Fin 0
     \<and> world_wx (fst (projr (step NaiveBroadphase_collisionPairs (Fin 1) (Some ThisWorld)
                                 movable_plane_world))) ! 0
         = NaN"
    using movable_plane_world_facts
    by (simp add: step_no_pairs NaiveBroadphase_collisionPairs_def lower_pairs_def
        for_each_Suc for_each_0 a b not_fixed_def rdi_def Let_def
        integrate_velocity_def add_gravity_def rd_def to_double_def to_float32_def
        binary_round_def)
  have far:
    "\<not> isl (step NaiveBroadphase_collisionPairs (Fin 1) (Some ThisWorld) far_sphere_world)
     \<and> world_x (fst (projr (step NaiveBroadphase_collisionPairs (Fin 1) (Some ThisWorld)
                                far_sphere_world))) ! 0
         = Fin 16777216
     \<and> world_x far_sphere_world ! 0 + world_vx far_sphere_world ! 0 * Fin 1 = Fin 16777217"
    using step_motion[where w = far_sphere_world
        and broadphase = NaiveBroadphase_collisionPairs and i = 0 and h = 1]
      far_sphere_world_facts float32_small(2)
    by (auto simp: linear_motion_def advance_def restore_value round_far)
  have none: "step NaiveBroadphase_collisionPairs (Fin 1) None moving_sphere_world
       = Inl ReferenceError"
    using moving_sphere_world_facts by (simp add: step_def)
  have other:
    "\<not> isl (step NaiveBroadphase_collisionPairs (Fin 1) (Some (OtherWorld fixed_sphere_world))
               moving_sphere_world)
     \<and> world_x (fst (projr (step NaiveBroadphase_collisionPairs (Fin 1)
                              (Some (OtherWorld fixed_sphere_world)) moving_sphere_world))) ! 0
       = Fin 0"
    using moving_sphere_world_facts moving_sphere_world_motion fixed_sphere_world_facts
    by (simp add: step_def step_worlds_def on_world_def on_this_def world_of_def
        solve_constraints_def solver_n_reset Let_def)
  have paused:
    "\<not> isl (step NaiveBroadphase_collisionPairs (Fin 1) (Some ThisWorld)
               (moving_sphere_world \<lparr> world_paused := True \<rparr>))
     \<and> world_x (fst (projr (step NaiveBroadphase_collisionPairs (Fin 1) (Some ThisWorld)
                              (moving_sphere_world \<lparr> world_paused := True \<rparr>)))) ! 0
       = Fin 0"
    using moving_sphere_world_motion by (simp add: step_def)
  have endless:
    "\<not> isl (step NaiveBroadphase_collisionPairs PInf (Some ThisWorld) moving_sphere_world)
     \<and> world_vx (fst (projr (step NaiveBroadphase_collisionPairs PInf (Some ThisWorld)
                               moving_sphere_world))) ! 0
       = NaN"
    using moving_sphere_world_facts moving_sphere_world_motion
    by (simp add: step_no_pairs moving_sphere_world_def build_defs
        for_each_Suc for_each_0 a b not_fixed_def rdi_def Let_def
        integrate_velocity_def add_gravity_def rd_def to_double_def to_float32_def
        binary_round_def gravity_x_def gravity_y_def gravity_z_def)
  from fixed plane far none other paused endless fixed_sphere_world_facts(2,3,6,7)
    movable_plane_world_facts(7,8,9,10) far_sphere_world_facts(2,3,6,7,8)
    moving_sphere_world_facts(2,3,6,7,8) moving_sphere_world_motion(1,7)
  show ?thesis by simp
qed

subsection \<open>Evaluations\<close>

lemma unit_plane:
  "Plane (V3 (Fin 0) (Fin 1) (Fin 0)) = PlaneShape (V3 (Fin 0) (Fin 1) (Fin 0))"
  by (simp add: Plane_def normalize3_def norm3_def Let_def)

text \<open>
  C5.  For the matrix with the elements \<open>[0,0,0, 0,1,0, 0,0,1]\<close> and the right hand side
  \<open>(-1, 0, 0)\<close>, \<open>solve\<close> computes \<open>x = -1/0\<close>, which is \<open>-Infinity\<close>, and returns
  \<open>(-Infinity, 0, 0)\<close> without raising: its test compares with \<open>Infinity\<close> only.  For
  the right hand side \<open>(1, 0, 0)\<close> the solution has \<open>x = Infinity\<close> and \<open>solve\<close> raises.
\<close>

theorem solve_misses_negative_infinity:
  "Mat3_solve [Fin 0, Fin 0, Fin 0, Fin 0, Fin 1, Fin 0, Fin 0, Fin 0, Fin 1]
              (V3 (Fin (- 1)) (Fin 0) (Fin 0))
     = Inr (V3 NInf (Fin 0) (Fin 0))
   \<and> Mat3_solve [Fin 0, Fin 0, Fin 0, Fin 0, Fin 1, Fin 0, Fin 0, Fin 0, Fin 1]
              (V3 (Fin 1) (Fin 0) (Fin 0))
     = Inl CouldNotSolve"
  by code_simp

text \<open>
  C1.  A sphere of mass 1 with the velocity \<open>(0, -1, 0)\<close> and a fixed plane with the
  normal \<open>(0, 1, 0)\<close>, bodies 0 and 1 of a world.  The impulse handler is called as the
  narrowphase calls it at a first contact: contact normal and relative velocity
  \<open>(0, -1, 0)\<close>, restitution \<open>1/2\<close>.  The solve gives \<open>J = (0, 3/2, 0)\<close>.  With
  \<open>J/m\<close> alone the velocities \<open>vy\<close> would become \<open>-1 + 3/2 = 1/2\<close> for the sphere and
  stay 0 for the plane; the handler leaves \<open>-1/2\<close> and \<open>1/2\<close>.  The angular velocities
  are unchanged.
\<close>

theorem impulse_adds_other_terms:
  "(let b1 = snd (setVelocity World (RigidBody (Fin 1) (Sphere (Fin 1))) (Fin 0) (Fin (- 1)) (Fin 0));
        w1 = fst (add b1 World);
        w2 = fst (add (RigidBody (Fin 0) (Plane (V3 (Fin 0) (Fin 1) (Fin 0)))) w1);
        n = V3 (Fin 0) (Fin (- 1)) (Fin 0);
        u = V3 (Fin 0) (Fin (- 1)) (Fin 0)
    in world_invm w2 = [Fin 1, Fin 0]
     \<and> world_vy w2 = [Fin (- 1), Fin 0]
     \<and> Mat3_solve [Fin 1, Fin 0, Fin 0, Fin 0, Fin 1, Fin 0, Fin 0, Fin 0, Fin 1]
                   (vsub (mult3 n (- Fin (1/2) * dot u n)) u)
         = Inr (V3 (Fin 0) (Fin (3/2)) (Fin 0))
     \<and> (case addImpulse w2 0 1 n (V3 (Fin 0) (Fin 0) (Fin 0)) u n (Fin (1/2)) (Fin (3/10)) of
          Inl err \<Rightarrow> False
        | Inr w' \<Rightarrow>
            world_vx w' = [Fin 0, Fin 0]
          \<and> world_vy w' = [Fin (- 1/2), Fin (1/2)]
          \<and> world_vz w' = [Fin 0, Fin 0]
          \<and> (world_wx w', world_wy w', world_wz w') = (world_wx w2, world_wy w2, world_wz w2)))"
  unfolding unit_plane by code_simp

text \<open>
  C2.  A solver for two bodies with \<open>a = b = eps = h = 1\<close> and one sweep, and one row
  between the bodies 0 and 1 with the bounds \<open>[0, 1]\<close>, whose multiplier starts at 0 and
  whose update gives 2.  The stored multiplier becomes the upper bound 1, but \<open>dlambda\<close>
  becomes \<open>1 - 1 = 0\<close>, not \<open>1 - 0\<close>, and the velocity change of body 0 stays 0 where
  \<open>(1 - 0) * MinvTrace * G\<close> is 1.
\<close>

theorem clamp_leaves_dlambda_zero:
  "(let s = fst (addConstraint
                  (reset 2 (Solver (Fin 1) (Fin 1) (Fin 1) (Fin 1) (Fin 1) 1 (Fin 1)))
                  [Fin 1, Fin 0, Fin 0, Fin 0, Fin 0, Fin 0, Fin 0, Fin 0, Fin 0, Fin 0, Fin 0, Fin 0]
                  [Fin 1, Fin 0, Fin 0, Fin 0, Fin 0, Fin 0, Fin 0, Fin 0, Fin 0, Fin 0, Fin 0, Fin 0]
                  [Fin (- 4), Fin 0, Fin 0, Fin 0, Fin 0, Fin 0, Fin 0, Fin 0, Fin 0, Fin 0, Fin 0, Fin 0]
                  [Fin 0, Fin 0, Fin 0, Fin 0, Fin 0, Fin 0, Fin 0, Fin 0, Fin 0, Fin 0, Fin 0, Fin 0]
                  [Fin 0, Fin 0, Fin 0, Fin 0, Fin 0, Fin 0, Fin 0, Fin 0, Fin 0, Fin 0, Fin 0, Fin 0]
                  (Fin 0) (Fin 1) 0 1)
    in (case lambda_arrays s of
          None \<Rightarrow> False
        | Some st0 \<Rightarrow>
            st_lambda st0 = [Fin 0]
          \<and> st_lambda (row_lambda s 0 (precompute s st0 0)) = [Fin 2]
          \<and> st_lambda (solve_sweeps s st0) = [Fin 1]
          \<and> st_dlambda (solve_sweeps s st0) = [Fin 0]
          \<and> st_vxlambda (solve_sweeps s st0) = [Fin 0, Fin 0])
     \<and> (case solve s of
          Inl err \<Rightarrow> False
        | Inr s' \<Rightarrow> solver_vxlambda s' = Some [Fin 0, Fin 0]))"
  by code_simp

lemma upt_12: "[0..<12] = [0,1,2,3,4,5,6,7,8,9,10,11]"
  by (simp add: upt_rec)

lemmas eval_defs =
  RigidBody_def Plane_def Box_def Sphere_def setPosition_def setVelocity_def add_def World_def
  Solver_def reset_def numObjects_def grow_def growi_def rd_def rdi_def
  normalize3_def norm3_def Vec3_def or0_def mult3_def dot_def negate_def cross_def vsub_def vadd_def
  quat_normalize_def quat_vmult_def array_quaternion_def elem_or_def
  narrowphase_pair_def narrow_box_plane_def box_plane_corner_def box_corners_def
  shape_at_def addConstraint_def inf_string_def isNaN_def world_of_def
  SPHERE_def PLANE_def BOX_def minus_jsnum_def signed_inf_def upt_12

text \<open>
  C4.  A fixed plane through the origin with the normal \<open>(0, 1, 0)\<close> is body 0, a box with
  the half extents \<open>(1, 1, 1)\<close> and its centre at \<open>(0, -2, 0)\<close> is body 1: all eight
  corners of the box are below the plane.  The narrowphase loop of \<open>step\<close>, run on
  the pair \<open>(1, 0)\<close> after the reset of the solver, adds five rows to the solver.
\<close>

theorem box_plane_emits_five_rows:
  "(let plane = RigidBody (Fin 0) (Plane (V3 (Fin 0) (Fin 1) (Fin 0)));
        box = snd (setPosition World (RigidBody (Fin 1) (Box (V3 (Fin 1) (Fin 1) (Fin 1))))
                     (Fin 0) (Fin (- 2)) (Fin 0));
        w1 = fst (add plane World);
        w2 = fst (add box w1)
    in world_type w2 = [PLANE, BOX]
     \<and> solver_n (reset 2 (world_solver w2)) = 0
     \<and> (case narrowphase ThisWorld [1] [0] (w2 \<lparr> world_solver := reset 2 (world_solver w2) \<rparr>) of
          Inl err \<Rightarrow> False
        | Inr w' \<Rightarrow> solver_n (world_solver w') = 5))"
  by (simp add: eval_defs Let_def cong: let_weak_cong)

end
